theory Spec2Isabelle
  imports Main
begin

section \<open>Values shared by all services\<close>

text \<open>
  An ObjectId is kept as the string that \<^verbatim>\<open>_id.toString()\<close> yields; a JavaScript
  \<^verbatim>\<open>Date\<close> is kept as its number of milliseconds.  A thrown \<^verbatim>\<open>new Error(msg)\<close> is
  \<open>Error msg\<close>; the remaining constructors are the failures raised by Mongoose and the
  MongoDB driver (schema validation, a unique index, any other store failure).
\<close>

type_synonym oid = string
type_synonym date = int

datatype error =
    Error string
  | ValidationError string
  | DuplicateKeyError string
  | StoreError

text \<open>\<^verbatim>\<open>String.prototype.trim\<close> and \<^verbatim>\<open>toUpperCase\<close>, on ASCII text.\<close>

definition is_space :: "char \<Rightarrow> bool" where
  "is_space c = (c \<in> set [CHR 0x09, CHR 0x0A, CHR 0x0B, CHR 0x0C, CHR 0x0D, CHR 0x20])"

definition trim :: "string \<Rightarrow> string" where
  "trim s = rev (dropWhile is_space (rev (dropWhile is_space s)))"

definition upper_char :: "char \<Rightarrow> char" where
  "upper_char c =
     (case map_of (zip ''abcdefghijklmnopqrstuvwxyz'' ''ABCDEFGHIJKLMNOPQRSTUVWXYZ'') c of
        None \<Rightarrow> c
      | Some u \<Rightarrow> u)"

definition toUpperCase :: "string \<Rightarrow> string" where
  "toUpperCase s = map upper_char s"

section \<open>Documents and collections\<close>

text \<open>
  Each Mongoose schema is a record.  Fields that default to \<^verbatim>\<open>null\<close> are options.  The
  \<^verbatim>\<open>updatedAt\<close> timestamp is not read by any service and is left out.
\<close>

record permission =
  p_id :: oid
  p_code :: string
  p_name :: string
  p_description :: string

record role =
  r_id :: oid
  r_name :: string
  r_description :: string
  r_permissions :: "oid list"

record menu =
  m_id :: oid
  m_name :: string
  m_route :: "string option"
  m_icon :: "string option"
  m_parentId :: "oid option"
  m_orderIndex :: int
  m_permissionCode :: "string option"

record user =
  u_id :: oid
  u_username :: string
  u_password :: string
  u_roleId :: "oid option"
  u_role :: string
  u_status :: string
  u_phoneNumber :: "string option"
  u_profilePicturePath :: "string option"
  u_deletedAt :: "date option"
  u_createdAt :: date

record citizen =
  c_id :: oid
  c_nationalId :: string
  c_firstName :: string
  c_middleName :: "string option"
  c_lastName :: string
  c_gender :: string
  c_dateOfBirth :: date
  c_placeOfBirth :: string
  c_nationality :: string
  c_imagePath :: "string option"
  c_documentPath :: "string option"
  c_status :: string
  c_deletedAt :: "date option"
  c_createdAt :: date

record status_change_log =
  l_id :: oid
  l_nationalId :: string
  l_oldStatus :: string
  l_newStatus :: string
  l_changedBy :: oid
  l_changedAt :: date

text \<open>A collection is the list of its documents in natural (insertion) order.\<close>

record db =
  users :: "user list"
  roles :: "role list"
  permissions :: "permission list"
  menus :: "menu list"
  citizens :: "citizen list"
  statusChangeLogs :: "status_change_log list"

text \<open>
  \<^verbatim>\<open>Model.findById\<close> and \<^verbatim>\<open>findOne\<close> return the first matching document;
  \<^verbatim>\<open>doc.save()\<close> on a loaded document rewrites the document with the same \<^verbatim>\<open>_id\<close>.
\<close>

definition findUserById :: "db \<Rightarrow> oid \<Rightarrow> user option" where
  "findUserById d i = find (\<lambda>u. u_id u = i) (users d)"

definition findRoleById :: "db \<Rightarrow> oid \<Rightarrow> role option" where
  "findRoleById d i = find (\<lambda>r. r_id r = i) (roles d)"

definition findPermissionById :: "db \<Rightarrow> oid \<Rightarrow> permission option" where
  "findPermissionById d i = find (\<lambda>p. p_id p = i) (permissions d)"


definition saveCitizen :: "citizen \<Rightarrow> db \<Rightarrow> db" where
  "saveCitizen c d = d\<lparr>citizens := map (\<lambda>x. if c_id x = c_id c then c else x) (citizens d)\<rparr>"

section \<open>Response shapes\<close>

text \<open>
  \<^verbatim>\<open>getFileUrl\<close> of \<^verbatim>\<open>utils/fileUpload.util.js\<close>; the base URL comes from the process
  environment and is a parameter.
\<close>

definition getFileUrl :: "string \<Rightarrow> string option \<Rightarrow> string option" where
  "getFileUrl baseUrl filePath =
     (case filePath of
        None \<Rightarrow> None
      | Some p \<Rightarrow>
          if p = [] then None
          else if take 4 p = ''http'' then Some p
          else Some (baseUrl @ ''/'' @ (if take 2 p = ''./'' then drop 2 p else p)))"

record citizen_view =
  cv_id :: oid
  cv_nationalId :: string
  cv_firstName :: string
  cv_middleName :: "string option"
  cv_lastName :: string
  cv_fullName :: string
  cv_gender :: string
  cv_dateOfBirth :: date
  cv_placeOfBirth :: string
  cv_nationality :: string
  cv_status :: string
  cv_imagePath :: "string option"
  cv_imageUrl :: "string option"
  cv_documentPath :: "string option"
  cv_documentUrl :: "string option"
  cv_createdAt :: date

text \<open>The \<^verbatim>\<open>fullName\<close> virtual of the Citizen schema.\<close>

definition fullName :: "citizen \<Rightarrow> string" where
  "fullName c =
     (case c_middleName c of
        None \<Rightarrow> c_firstName c @ '' '' @ c_lastName c
      | Some m \<Rightarrow>
          if m = [] then c_firstName c @ '' '' @ c_lastName c
          else c_firstName c @ '' '' @ m @ '' '' @ c_lastName c)"

text \<open>
  \<^verbatim>\<open>CitizenService.normalizeCitizen\<close>.  The date of birth is shown as the calendar day
  of the stored instant; the view keeps the instant.
\<close>

definition normalizeCitizen :: "string \<Rightarrow> citizen \<Rightarrow> citizen_view" where
  "normalizeCitizen baseUrl c =
     \<lparr> cv_id = c_id c,
       cv_nationalId = c_nationalId c,
       cv_firstName = c_firstName c,
       cv_middleName = c_middleName c,
       cv_lastName = c_lastName c,
       cv_fullName = fullName c,
       cv_gender = c_gender c,
       cv_dateOfBirth = c_dateOfBirth c,
       cv_placeOfBirth = c_placeOfBirth c,
       cv_nationality = c_nationality c,
       cv_status = c_status c,
       cv_imagePath = c_imagePath c,
       cv_imageUrl = getFileUrl baseUrl (c_imagePath c),
       cv_documentPath = c_documentPath c,
       cv_documentUrl = getFileUrl baseUrl (c_documentPath c),
       cv_createdAt = c_createdAt c \<rparr>"

text \<open>
  A user's \<^verbatim>\<open>roleId\<close> as a service sees it: the raw reference when the query did not
  populate it, the Role document after \<^verbatim>\<open>populate('roleId')\<close>, or \<^verbatim>\<open>null\<close> when the
  reference is absent or populate found no such role.
\<close>

datatype role_ref = RefId oid | RefDoc role | RefNull

definition rawRole :: "user \<Rightarrow> role_ref" where
  "rawRole u = (case u_roleId u of None \<Rightarrow> RefNull | Some i \<Rightarrow> RefId i)"

definition populateRole :: "db \<Rightarrow> user \<Rightarrow> role_ref" where
  "populateRole d u =
     (case u_roleId u of
        None \<Rightarrow> RefNull
      | Some i \<Rightarrow> (case findRoleById d i of None \<Rightarrow> RefNull | Some r \<Rightarrow> RefDoc r))"

datatype role_view = RoleName "string option" | RoleObject oid string string

record user_view =
  uv_id :: oid
  uv_username :: string
  uv_roleId :: "oid option"
  uv_role :: role_view
  uv_status :: string
  uv_phoneNumber :: "string option"
  uv_profilePicturePath :: "string option"
  uv_profilePictureUrl :: "string option"
  uv_createdAt :: date

text \<open>\<^verbatim>\<open>UserService.normalizeUser\<close>.\<close>

definition normalizeUser :: "string \<Rightarrow> user \<Rightarrow> role_ref \<Rightarrow> user_view" where
  "normalizeUser baseUrl u ref =
     \<lparr> uv_id = u_id u,
       uv_username = u_username u,
       uv_roleId = (case ref of RefId i \<Rightarrow> Some i | RefDoc r \<Rightarrow> Some (r_id r) | RefNull \<Rightarrow> None),
       uv_role =
         (case ref of
            RefDoc r \<Rightarrow>
              if r_name r \<noteq> [] then RoleObject (r_id r) (r_name r) (r_description r)
              else RoleName (if u_role u = [] then None else Some (u_role u))
          | _ \<Rightarrow> RoleName (if u_role u = [] then None else Some (u_role u))),
       uv_status = u_status u,
       uv_phoneNumber = u_phoneNumber u,
       uv_profilePicturePath = u_profilePicturePath u,
       uv_profilePictureUrl = getFileUrl baseUrl (u_profilePicturePath u),
       uv_createdAt = u_createdAt u \<rparr>"

section \<open>Lifecycle: paginated listings\<close>

text \<open>
  \<^verbatim>\<open>.skip(skip).limit(limit)\<close> on a sorted cursor.  MongoDB rejects a negative skip, reads
  a limit of zero as no limit and a negative limit as its absolute value.
\<close>

definition skipLimit :: "int \<Rightarrow> int \<Rightarrow> 'a list \<Rightarrow> error + 'a list" where
  "skipLimit skip limit xs =
     (if skip < 0 then Inl StoreError
      else if limit = 0 then Inr (drop (nat skip) xs)
      else Inr (take (nat \<bar>limit\<bar>) (drop (nat skip) xs)))"

record pagination =
  pg_page :: int
  pg_limit :: int
  pg_total :: int
  pg_pages :: "int option"

text \<open>
  \<^verbatim>\<open>Math.ceil(total / limit)\<close>; with a limit of zero the quotient is not a finite
  number, which is \<open>None\<close> here.
\<close>

definition pageCount :: "int \<Rightarrow> int \<Rightarrow> int option" where
  "pageCount totalDocs limit = (if limit = 0 then None else Some (- ((- totalDocs) div limit)))"

record 'a listing =
  ls_data :: "'a list"
  ls_pagination :: pagination

text \<open>
  \<^verbatim>\<open>.sort({ createdAt: -1 })\<close> and \<^verbatim>\<open>.sort({ deletedAt: -1 })\<close>: descending by the field.
  MongoDB leaves the order of equal keys open; here equal keys keep their natural order.
\<close>

definition deletedKey :: "date option \<Rightarrow> int" where
  "deletedKey t = (case t of None \<Rightarrow> 0 | Some x \<Rightarrow> x)"

text \<open>\<^verbatim>\<open>CitizenService.listCitizens\<close>.\<close>

definition listCitizens :: "string \<Rightarrow> db \<Rightarrow> int \<Rightarrow> int \<Rightarrow> error + citizen_view listing" where
  "listCitizens baseUrl d page limit =
     (let skip = (page - 1) * limit;
          found = sort_key (\<lambda>c. - c_createdAt c) (filter (\<lambda>c. c_deletedAt c = None) (citizens d));
          totalDocs = int (length (filter (\<lambda>c. c_deletedAt c = None) (citizens d)))
      in case skipLimit skip limit found of
           Inl e \<Rightarrow> Inl e
         | Inr cs \<Rightarrow>
             Inr \<lparr> ls_data = map (normalizeCitizen baseUrl) cs,
                   ls_pagination = \<lparr> pg_page = page, pg_limit = limit, pg_total = totalDocs,
                                     pg_pages = pageCount totalDocs limit \<rparr> \<rparr>)"

text \<open>\<^verbatim>\<open>CitizenService.listTrash\<close>.\<close>

definition listCitizenTrash :: "string \<Rightarrow> db \<Rightarrow> int \<Rightarrow> int \<Rightarrow> error + citizen_view listing" where
  "listCitizenTrash baseUrl d page limit =
     (let skip = (page - 1) * limit;
          found = sort_key (\<lambda>c. - deletedKey (c_deletedAt c))
                    (filter (\<lambda>c. c_deletedAt c \<noteq> None) (citizens d));
          totalDocs = int (length (filter (\<lambda>c. c_deletedAt c \<noteq> None) (citizens d)))
      in case skipLimit skip limit found of
           Inl e \<Rightarrow> Inl e
         | Inr cs \<Rightarrow>
             Inr \<lparr> ls_data = map (normalizeCitizen baseUrl) cs,
                   ls_pagination = \<lparr> pg_page = page, pg_limit = limit, pg_total = totalDocs,
                                     pg_pages = pageCount totalDocs limit \<rparr> \<rparr>)"

text \<open>\<^verbatim>\<open>UserService.listUsers\<close>; every user is returned with its role populated.\<close>

definition listUsers :: "string \<Rightarrow> db \<Rightarrow> int \<Rightarrow> int \<Rightarrow> error + user_view listing" where
  "listUsers baseUrl d page limit =
     (let skip = (page - 1) * limit;
          found = sort_key (\<lambda>u. - u_createdAt u) (filter (\<lambda>u. u_deletedAt u = None) (users d));
          totalDocs = int (length (filter (\<lambda>u. u_deletedAt u = None) (users d)))
      in case skipLimit skip limit found of
           Inl e \<Rightarrow> Inl e
         | Inr us \<Rightarrow>
             Inr \<lparr> ls_data = map (\<lambda>u. normalizeUser baseUrl u (populateRole d u)) us,
                   ls_pagination = \<lparr> pg_page = page, pg_limit = limit, pg_total = totalDocs,
                                     pg_pages = pageCount totalDocs limit \<rparr> \<rparr>)"

text \<open>\<^verbatim>\<open>UserService.listTrash\<close>.\<close>

definition listUserTrash :: "string \<Rightarrow> db \<Rightarrow> int \<Rightarrow> int \<Rightarrow> error + user_view listing" where
  "listUserTrash baseUrl d page limit =
     (let skip = (page - 1) * limit;
          found = sort_key (\<lambda>u. - deletedKey (u_deletedAt u))
                    (filter (\<lambda>u. u_deletedAt u \<noteq> None) (users d));
          totalDocs = int (length (filter (\<lambda>u. u_deletedAt u \<noteq> None) (users d)))
      in case skipLimit skip limit found of
           Inl e \<Rightarrow> Inl e
         | Inr us \<Rightarrow>
             Inr \<lparr> ls_data = map (\<lambda>u. normalizeUser baseUrl u (populateRole d u)) us,
                   ls_pagination = \<lparr> pg_page = page, pg_limit = limit, pg_total = totalDocs,
                                     pg_pages = pageCount totalDocs limit \<rparr> \<rparr>)"

text \<open>
  The whole of a listing is its first page under a page size that no collection reaches.
  \<open>pageData r\<close> is the data a call returned (nothing when the call failed), and
  \<open>listedCitizens\<close>, \<open>listedUsers\<close> are the ids of the entities in it.
\<close>

definition wholeLimit :: "db \<Rightarrow> int" where
  "wholeLimit d = 1 + int (length (citizens d)) + int (length (users d))"

definition pageData :: "error + 'a listing \<Rightarrow> 'a list" where
  "pageData r = (case r of Inl e \<Rightarrow> [] | Inr l \<Rightarrow> ls_data l)"

definition listedCitizens :: "error + citizen_view listing \<Rightarrow> oid list" where
  "listedCitizens r = map cv_id (pageData r)"

definition listedUsers :: "error + user_view listing \<Rightarrow> oid list" where
  "listedUsers r = map uv_id (pageData r)"

section \<open>Creating a user\<close>

text \<open>The request body of \<^verbatim>\<open>createUser\<close>; \<open>None\<close> is an absent (undefined) property.\<close>

record user_data =
  ud_username :: "string option"
  ud_password :: "string option"
  ud_role_id :: "oid option"
  ud_roleId :: "oid option"
  ud_status :: "string option"
  ud_phoneNumber :: "string option"
  ud_profilePicturePath :: "string option"

text \<open>JavaScript truthiness of an optional string, and \<^verbatim>\<open>a || b\<close> on two of them.\<close>

definition truthy :: "string option \<Rightarrow> bool" where
  "truthy x = (case x of None \<Rightarrow> False | Some s \<Rightarrow> s \<noteq> [])"

definition orElse :: "string option \<Rightarrow> string option \<Rightarrow> string option" where
  "orElse a b = (if truthy a then a else b)"

text \<open>The pattern \<^verbatim>\<open>/^[+]?[0-9]{8,15}$/\<close>.\<close>

definition is_digit :: "char \<Rightarrow> bool" where
  "is_digit c = (c \<in> set ''0123456789'')"

definition phoneOk :: "string \<Rightarrow> bool" where
  "phoneOk s =
     (let ds = (case s of [] \<Rightarrow> [] | c # r \<Rightarrow> if c = CHR ''+'' then r else s)
      in 8 \<le> length ds \<and> length ds \<le> 15 \<and> list_all is_digit ds)"

text \<open>
  What \<^verbatim>\<open>user.save()\<close> does to a new document: the schema's enum validators, then the
  insert, which the unique index on \<^verbatim>\<open>username\<close> (declared \<^verbatim>\<open>unique: true\<close> in the User
  schema, and covering trashed users as well) rejects when any stored user carries the name.
\<close>

definition insertUser :: "user \<Rightarrow> db \<Rightarrow> error + db" where
  "insertUser u d =
     (if u_status u \<notin> {''ACTIVE'', ''DISABLED''} then Inl (ValidationError ''status'')
      else if u_role u \<notin> {''ADMIN'', ''OFFICER'', ''VIEWER''} then Inl (ValidationError ''role'')
      else if u_id u \<in> set (map u_id (users d)) then Inl (DuplicateKeyError ''_id'')
      else if u_username u \<in> set (map u_username (users d))
        then Inl (DuplicateKeyError ''username'')
      else Inr (d\<lparr>users := users d @ [u]\<rparr>))"

text \<open>
  \<^verbatim>\<open>UserService.createUser\<close>.  \<open>hash\<close> is the bcrypt hashing of the pre-save hook,
  \<open>newId\<close> the ObjectId given to the new document and \<open>now\<close> its creation time.
\<close>

definition createUser ::
  "string \<Rightarrow> (string \<Rightarrow> string) \<Rightarrow> oid \<Rightarrow> date \<Rightarrow> db \<Rightarrow> user_data \<Rightarrow> (error + user_view) \<times> db" where
  "createUser baseUrl hash newId now d data =
     (if \<not> truthy (ud_username data) \<or> trim (the (ud_username data)) = []
        then (Inl (Error ''Username is required''), d)
      else if \<not> truthy (ud_password data) \<or> trim (the (ud_password data)) = []
        then (Inl (Error ''Password is required''), d)
      else if \<not> truthy (ud_role_id data) \<and> \<not> truthy (ud_roleId data)
        then (Inl (Error ''Role ID is required''), d)
      else
        let username = trim (the (ud_username data));
            password = the (ud_password data);
            roleId = the (orElse (ud_role_id data) (ud_roleId data))
        in if length username < 3 \<or> length username > 100
             then (Inl (Error ''Username must be between 3 and 100 characters''), d)
           else if length password < 6
             then (Inl (Error ''Password must be at least 6 characters''), d)
           else case findRoleById d roleId of
             None \<Rightarrow> (Inl (Error ''Invalid role ID''), d)
           | Some role \<Rightarrow>
               if find (\<lambda>u. u_username u = username \<and> u_deletedAt u = None) (users d) \<noteq> None
                 then (Inl (Error ''Username already exists''), d)
               else if truthy (ud_phoneNumber data) \<and> \<not> phoneOk (trim (the (ud_phoneNumber data)))
                 then (Inl (Error
                   ''Invalid phone number format. Use 8-15 digits with optional country code''), d)
               else
                 let user = \<lparr> u_id = newId,
                              u_username = username,
                              u_password = hash password,
                              u_roleId = Some roleId,
                              u_role = r_name role,
                              u_status = the (orElse (ud_status data) (Some ''ACTIVE'')),
                              u_phoneNumber =
                                (case ud_phoneNumber data of
                                   None \<Rightarrow> None
                                 | Some p \<Rightarrow> if trim p = [] then None else Some (trim p)),
                              u_profilePicturePath =
                                orElse (ud_profilePicturePath data) None,
                              u_deletedAt = None,
                              u_createdAt = now \<rparr>
                 in (case insertUser user d of
                       Inl e \<Rightarrow> (Inl e, d)
                     | Inr d' \<Rightarrow> (Inr (normalizeUser baseUrl user (rawRole user)), d')))"

section \<open>RBAC service\<close>

text \<open>
  \<^verbatim>\<open>populate('permissions')\<close> replaces the role's references by the Permission
  documents they resolve to, dropping references that resolve to nothing.  The Permission
  schema is the one the seeder writes: \<^verbatim>\<open>code\<close>, \<^verbatim>\<open>name\<close>, \<^verbatim>\<open>description\<close>.
\<close>

definition populatePermissions :: "db \<Rightarrow> role \<Rightarrow> permission list" where
  "populatePermissions d r = List.map_filter (findPermissionById d) (r_permissions r)"

text \<open>
  \<^verbatim>\<open>RBACService.getUserPermissions\<close>.  \<open>storeOk\<close> tells whether the store answers the
  query; when it does not the query throws and the \<^verbatim>\<open>catch\<close> branch returns \<^verbatim>\<open>[]\<close>.
\<close>

definition getUserPermissions :: "bool \<Rightarrow> db \<Rightarrow> oid \<Rightarrow> string list" where
  "getUserPermissions storeOk d userId =
     (if \<not> storeOk then []
      else case findUserById d userId of
             None \<Rightarrow> []
           | Some user \<Rightarrow>
               (case populateRole d user of
                  RefDoc r \<Rightarrow> map p_code (populatePermissions d r)
                | _ \<Rightarrow> []))"

text \<open>
  The node objects that \<^verbatim>\<open>buildMenuTree\<close> creates live in \<^verbatim>\<open>menuMap\<close>, one per key; a
  \<^verbatim>\<open>children\<close> array holds references to such objects, written here as their keys.
\<close>

record menu_node =
  n_id :: oid
  n_label :: string
  n_route :: "string option"
  n_icon :: "string option"
  n_orderIndex :: int
  n_children :: "oid list"

type_synonym menu_map = "oid \<Rightarrow> menu_node option"

text \<open>First pass: one fresh node per menu, a later menu with the same id replacing it.\<close>

definition makeNode :: "menu \<Rightarrow> menu_node" where
  "makeNode m =
     \<lparr> n_id = m_id m, n_label = m_name m, n_route = m_route m, n_icon = m_icon m,
       n_orderIndex = m_orderIndex m, n_children = [] \<rparr>"

definition addNode :: "menu \<Rightarrow> menu_map \<Rightarrow> menu_map" where
  "addNode m mp = mp(m_id m \<mapsto> makeNode m)"

definition firstPass :: "menu list \<Rightarrow> menu_map" where
  "firstPass ms = fold addNode ms Map.empty"

text \<open>
  Second pass: a menu with a parent reference is pushed onto the parent's children when the
  parent is in the map, and goes nowhere otherwise; a menu without one is pushed onto the
  roots.
\<close>

definition attach :: "menu \<Rightarrow> menu_map \<times> oid list \<Rightarrow> menu_map \<times> oid list" where
  "attach m st =
     (case m_parentId m of
        Some p \<Rightarrow>
          (case fst st p of
             Some parent \<Rightarrow>
               ((fst st)(p \<mapsto> parent\<lparr>n_children := n_children parent @ [m_id m]\<rparr>), snd st)
           | None \<Rightarrow> st)
      | None \<Rightarrow> (fst st, snd st @ [m_id m]))"

definition secondPass :: "menu list \<Rightarrow> menu_map \<Rightarrow> menu_map \<times> oid list" where
  "secondPass ms mp = fold attach ms (mp, [])"

text \<open>
  \<^verbatim>\<open>Array.prototype.sort\<close> with the comparator \<^verbatim>\<open>a.orderIndex - b.orderIndex\<close> is a stable
  ascending sort on the order index of the referenced node.
\<close>

definition orderOf :: "menu_map \<Rightarrow> oid \<Rightarrow> int" where
  "orderOf mp k = (case mp k of None \<Rightarrow> 0 | Some n \<Rightarrow> n_orderIndex n)"

definition sortByOrder :: "menu_map \<Rightarrow> oid list \<Rightarrow> oid list" where
  "sortByOrder mp ks = sort_key (orderOf mp) ks"

definition sortChildren :: "oid \<Rightarrow> menu_map \<Rightarrow> menu_map" where
  "sortChildren k mp =
     (case mp k of
        None \<Rightarrow> mp
      | Some n \<Rightarrow> mp(k \<mapsto> n\<lparr>n_children := sortByOrder mp (n_children n)\<rparr>))"

text \<open>
  \<^verbatim>\<open>RBACService.buildMenuTree\<close>: the sorted array of root references, and the node
  objects they lead to.
\<close>

definition buildMenuTree :: "menu list \<Rightarrow> oid list \<times> menu_map" where
  "buildMenuTree ms =
     (let st = secondPass ms (firstPass ms);
          rootMenus = sortByOrder (fst st) (snd st)
      in (rootMenus, fold sortChildren rootMenus (fst st)))"

text \<open>
  The returned value read as a tree, as the JSON serialisation of the response does.  A
  chain of children longer than \<open>fuel\<close> gives \<open>None\<close>.
\<close>

datatype menu_item =
  MenuItem (mi_id: oid) (mi_label: string) (mi_route: "string option")
    (mi_icon: "string option") (mi_orderIndex: int) (mi_children: "menu_item list")

fun allSome :: "'a option list \<Rightarrow> 'a list option" where
  "allSome [] = Some []"
| "allSome (None # xs) = None"
| "allSome (Some x # xs) = (case allSome xs of None \<Rightarrow> None | Some ys \<Rightarrow> Some (x # ys))"

fun readNode :: "nat \<Rightarrow> menu_map \<Rightarrow> oid \<Rightarrow> menu_item option" where
  "readNode 0 mp k = None"
| "readNode (Suc fuel) mp k =
     (case mp k of
        None \<Rightarrow> None
      | Some n \<Rightarrow>
          (case allSome (map (readNode fuel mp) (n_children n)) of
             None \<Rightarrow> None
           | Some cs \<Rightarrow>
               Some (MenuItem (n_id n) (n_label n) (n_route n) (n_icon n) (n_orderIndex n) cs)))"

definition readForest :: "nat \<Rightarrow> oid list \<times> menu_map \<Rightarrow> menu_item list option" where
  "readForest fuel t = allSome (map (readNode fuel (snd t)) (fst t))"

text \<open>
  What the returned value contains.  A node occurs in the forest when it is one of the roots
  or is held in the \<^verbatim>\<open>children\<close> array of a node that occurs in it.
\<close>

inductive inForest :: "oid list \<times> menu_map \<Rightarrow> oid \<Rightarrow> bool" for t where
  root: "ListMem k (fst t) \<Longrightarrow> inForest t k"
| child: "inForest t p \<Longrightarrow> snd t p = Some n \<Longrightarrow> ListMem k (n_children n) \<Longrightarrow> inForest t k"

code_pred (modes: i \<Rightarrow> o \<Rightarrow> bool, i \<Rightarrow> i \<Rightarrow> bool) inForest .

text \<open>
  A menu of a list is anchored in it when following the parent references from it stays in
  the list and ends at a menu without parent.
\<close>

inductive anchored :: "menu list \<Rightarrow> menu \<Rightarrow> bool" for ms where
  top: "m \<in> set ms \<Longrightarrow> m_parentId m = None \<Longrightarrow> anchored ms m"
| below: "m \<in> set ms \<Longrightarrow> m_parentId m = Some p \<Longrightarrow> find (\<lambda>x. m_id x = p) ms = Some pm \<Longrightarrow>
          anchored ms pm \<Longrightarrow> anchored ms m"

code_pred (modes: i \<Rightarrow> i \<Rightarrow> bool) anchored .

text \<open>
  The ids of the menus of a list that name \<open>k\<close> as their parent, and of those that name no
  parent, in the order of the list.
\<close>

definition childrenOf :: "menu list \<Rightarrow> oid \<Rightarrow> oid list" where
  "childrenOf ms k = map m_id (filter (\<lambda>m. m_parentId m = Some k) ms)"

definition rootsOf :: "menu list \<Rightarrow> oid list" where
  "rootsOf ms = map m_id (filter (\<lambda>m. m_parentId m = None) ms)"

text \<open>What a node's \<^verbatim>\<open>children\<close> array holds, its order put aside.\<close>

definition childView :: "menu_map \<Rightarrow> oid \<Rightarrow> (oid set \<times> bool) option" where
  "childView mp k = map_option (\<lambda>n. (set (n_children n), distinct (n_children n))) (mp k)"

text \<open>
  The menus that \<^verbatim>\<open>Menu.find({ $or: [...] }).sort({ orderIndex: 1 })\<close> fetches for a list
  of granted codes.
\<close>

definition fetchMenus :: "db \<Rightarrow> string list \<Rightarrow> menu list" where
  "fetchMenus d granted =
     sort_key m_orderIndex
       (filter (\<lambda>m. case m_permissionCode m of None \<Rightarrow> True | Some c \<Rightarrow> c \<in> set granted)
          (menus d))"

text \<open>
  \<^verbatim>\<open>RBACService.getUserMenus\<close>; \<open>menusOk\<close> tells whether the menu query is answered,
  and the \<^verbatim>\<open>catch\<close> branch returns \<^verbatim>\<open>[]\<close> when it is not.
\<close>

definition getUserMenus :: "bool \<Rightarrow> bool \<Rightarrow> db \<Rightarrow> oid \<Rightarrow> oid list \<times> menu_map" where
  "getUserMenus storeOk menusOk d userId =
     (let granted = getUserPermissions storeOk d userId
      in if length granted = 0 then ([], Map.empty)
         else if \<not> menusOk then ([], Map.empty)
         else buildMenuTree (fetchMenus d granted))"

section \<open>Authentication and permission middleware\<close>

text \<open>
  A middleware either calls \<^verbatim>\<open>next()\<close> or ends the request with a status and a message.
  The request carries what \<^verbatim>\<open>authenticate\<close> attached to it.
\<close>

datatype response = Next | Status nat string

record request =
  req_user :: "(user \<times> role_ref) option"
  req_userId :: "oid option"
  req_userRole :: "string option"

definition newRequest :: request where
  "newRequest = \<lparr> req_user = None, req_userId = None, req_userRole = None \<rparr>"

text \<open>The outcome of \<^verbatim>\<open>jwt.verify\<close>, which is outside this development.\<close>

datatype jwt_result = Decoded oid | JsonWebTokenError | TokenExpiredError | OtherJwtError

text \<open>
  \<^verbatim>\<open>authenticate\<close> of \<^verbatim>\<open>middleware/auth.middleware.js\<close>.  As in the RBAC service,
  \<open>storeOk\<close> tells whether the store answers; a query that throws ends in the \<^verbatim>\<open>catch\<close>
  branch of the middleware.
\<close>

definition authenticate ::
  "(string \<Rightarrow> jwt_result) \<Rightarrow> bool \<Rightarrow> db \<Rightarrow> string option \<Rightarrow> request \<Rightarrow> response \<times> request" where
  "authenticate verify storeOk d authHeader req =
     (case authHeader of
        None \<Rightarrow> (Status 401 ''Authentication required. Please login.'', req)
      | Some h \<Rightarrow>
          if take 7 h \<noteq> ''Bearer '' then (Status 401 ''Authentication required. Please login.'', req)
          else
            (case verify (drop 7 h) of
               JsonWebTokenError \<Rightarrow> (Status 401 ''Invalid token'', req)
             | TokenExpiredError \<Rightarrow> (Status 401 ''Token expired'', req)
             | OtherJwtError \<Rightarrow> (Status 500 ''Authentication error'', req)
             | Decoded userId \<Rightarrow>
                 if \<not> storeOk then (Status 500 ''Authentication error'', req)
                 else
                 (case findUserById d userId of
                    None \<Rightarrow> (Status 401 ''User not found'', req)
                  | Some user \<Rightarrow>
                      if u_status user \<noteq> ''ACTIVE''
                        then (Status 401 ''User account is disabled'', req)
                      else if u_deletedAt user \<noteq> None
                        then (Status 401 ''User account has been deleted'', req)
                      else (Next, req\<lparr> req_user := Some (user, populateRole d user),
                                       req_userId := Some (u_id user),
                                       req_userRole := Some (u_role user) \<rparr>))))"

text \<open>
  \<^verbatim>\<open>requirePermission(...permissionCodes)\<close> of \<^verbatim>\<open>middleware/permission.middleware.js\<close>.
  \<^verbatim>\<open>Role.findById\<close> is given \<^verbatim>\<open>req.user.roleId\<close>, which Mongoose casts to the id it
  refers to.
\<close>

definition requirePermission :: "string list \<Rightarrow> bool \<Rightarrow> db \<Rightarrow> request \<Rightarrow> response" where
  "requirePermission permissionCodes storeOk d req =
     (case req_user req of
        None \<Rightarrow> Status 401 ''Authentication required''
      | Some ur \<Rightarrow>
          if \<not> storeOk then Status 500 ''Permission check error''
          else
          (case (case snd ur of
                   RefNull \<Rightarrow> None
                 | RefId i \<Rightarrow> findRoleById d i
                 | RefDoc r \<Rightarrow> findRoleById d (r_id r)) of
             None \<Rightarrow> Status 403 ''Role not found''
           | Some role \<Rightarrow>
               (let userPermissions = map p_code (populatePermissions d role)
                in if list_ex (\<lambda>code. code \<in> set userPermissions) permissionCodes then Next
                   else Status 403 ''Insufficient permissions'')))"

text \<open>
  Every protected route is registered as \<^verbatim>\<open>authenticate, requirePermission(...)\<close>: Express
  runs the second middleware only when the first called \<^verbatim>\<open>next()\<close>, on the request the
  first one left.
\<close>

definition authorize ::
  "(string \<Rightarrow> jwt_result) \<Rightarrow> bool \<Rightarrow> bool \<Rightarrow> db \<Rightarrow> string option \<Rightarrow> string list \<Rightarrow> response" where
  "authorize verify authOk permOk d authHeader permissionCodes =
     (case authenticate verify authOk d authHeader newRequest of
        (Next, req) \<Rightarrow> requirePermission permissionCodes permOk d req
      | (Status code msg, req) \<Rightarrow> Status code msg)"

section \<open>Updating a citizen and the status audit trail\<close>

text \<open>
  The body given to \<^verbatim>\<open>updateCitizen\<close>.  \<open>None\<close> is an absent property; the middle name
  may also be present and \<^verbatim>\<open>null\<close>.  The date of birth is what \<^verbatim>\<open>new Date(...)\<close> makes of
  the submitted value.
\<close>

datatype jsdate = ValidDate date | InvalidDate

record citizen_data =
  cd_firstName :: "string option"
  cd_middleName :: "string option option"
  cd_lastName :: "string option"
  cd_gender :: "string option"
  cd_dateOfBirth :: "jsdate option"
  cd_placeOfBirth :: "string option"
  cd_nationality :: "string option"
  cd_status :: "string option"

text \<open>
  What one call of a service takes from its surroundings: the base URL, the two instants of
  the date-of-birth check (\<^verbatim>\<open>new Date()\<close> and the same instant a hundred years earlier),
  the id and timestamp given to a new log row, and whether the store accepts the log insert
  and the update that \<^verbatim>\<open>save()\<close> sends.
\<close>

record call_env =
  e_baseUrl :: string
  e_today :: date
  e_hundredYearsAgo :: date
  e_logId :: oid
  e_logTime :: date
  e_logWriteOk :: bool
  e_saveOk :: bool

definition genderMessage :: string where
  "genderMessage =
     ''Gender must be '' @ [CHR 0x27] @ ''MALE'' @ [CHR 0x27] @ '' or '' @ [CHR 0x27] @
     ''FEMALE'' @ [CHR 0x27]"

text \<open>The assignments of the three name fields.\<close>

definition setNames :: "citizen_data \<Rightarrow> citizen \<Rightarrow> citizen" where
  "setNames data c =
     (let c1 = (if truthy (cd_firstName data)
                then c\<lparr>c_firstName := trim (the (cd_firstName data))\<rparr> else c);
          c2 = (case cd_middleName data of
                  None \<Rightarrow> c1
                | Some v \<Rightarrow>
                    c1\<lparr>c_middleName :=
                         (case v of
                            None \<Rightarrow> None
                          | Some s \<Rightarrow> if trim s = [] then None else Some (trim s))\<rparr>)
      in if truthy (cd_lastName data)
         then c2\<lparr>c_lastName := trim (the (cd_lastName data))\<rparr> else c2)"

text \<open>The gender check and assignment.\<close>

definition setGender :: "citizen_data \<Rightarrow> citizen \<Rightarrow> error + citizen" where
  "setGender data c =
     (if truthy (cd_gender data) then
        (let gender = toUpperCase (the (cd_gender data))
         in if gender \<notin> {''MALE'', ''FEMALE''} then Inl (Error genderMessage)
            else Inr (c\<lparr>c_gender := gender\<rparr>))
      else Inr c)"

text \<open>
  The date check and assignment.  Both comparisons are false on an Invalid Date, which is
  then assigned; the flag of the result records that the document now holds one.
\<close>

definition setDateOfBirth :: "call_env \<Rightarrow> citizen_data \<Rightarrow> citizen \<Rightarrow> error + citizen \<times> bool" where
  "setDateOfBirth env data c =
     (case cd_dateOfBirth data of
        None \<Rightarrow> Inr (c, False)
      | Some InvalidDate \<Rightarrow> Inr (c, True)
      | Some (ValidDate t) \<Rightarrow>
          if t > e_today env then Inl (Error ''Date of birth cannot be in the future'')
          else if t < e_hundredYearsAgo env
            then Inl (Error ''Date of birth cannot be more than 100 years ago'')
          else Inr (c\<lparr>c_dateOfBirth := t\<rparr>, False))"

definition setPlace :: "citizen_data \<Rightarrow> citizen \<Rightarrow> citizen" where
  "setPlace data c =
     (let c1 = (if truthy (cd_placeOfBirth data)
                then c\<lparr>c_placeOfBirth := trim (the (cd_placeOfBirth data))\<rparr> else c)
      in if truthy (cd_nationality data)
         then c1\<lparr>c_nationality := trim (the (cd_nationality data))\<rparr> else c1)"

text \<open>
  The document that \<^verbatim>\<open>StatusChangeLog.create({ nationalId, oldStatus, newStatus, changedBy })\<close>
  inserts, with the id and the \<^verbatim>\<open>changedAt\<close> timestamp it is given.
\<close>

definition logRow :: "call_env \<Rightarrow> string \<Rightarrow> string \<Rightarrow> string \<Rightarrow> oid \<Rightarrow> status_change_log" where
  "logRow env nationalId oldStatus newStatus actor =
     \<lparr> l_id = e_logId env, l_nationalId = nationalId, l_oldStatus = oldStatus,
       l_newStatus = newStatus, l_changedBy = actor, l_changedAt = e_logTime env \<rparr>"

text \<open>
  \<^verbatim>\<open>StatusChangeLog.create\<close>: the schema requires all four fields and restricts both
  statuses to \<^verbatim>\<open>ACTIVE\<close> and \<^verbatim>\<open>DECEASED\<close>; a valid row is appended unless the store refuses
  the insert.
\<close>

definition createStatusChangeLog ::
  "call_env \<Rightarrow> db \<Rightarrow> string \<Rightarrow> string \<Rightarrow> string \<Rightarrow> oid option \<Rightarrow> error + db" where
  "createStatusChangeLog env d nationalId oldStatus newStatus changedBy =
     (if nationalId = [] then Inl (ValidationError ''nationalId'')
      else if oldStatus \<notin> {''ACTIVE'', ''DECEASED''} then Inl (ValidationError ''oldStatus'')
      else if newStatus \<notin> {''ACTIVE'', ''DECEASED''} then Inl (ValidationError ''newStatus'')
      else case changedBy of
        None \<Rightarrow> Inl (ValidationError ''changedBy'')
      | Some actor \<Rightarrow>
          if \<not> e_logWriteOk env then Inl StoreError
          else Inr (d\<lparr>statusChangeLogs := statusChangeLogs d @
                 [logRow env nationalId oldStatus newStatus actor]\<rparr>))"

text \<open>The status assignment, with the log row written when the status changes.\<close>

definition setStatus ::
  "call_env \<Rightarrow> db \<Rightarrow> string \<Rightarrow> citizen_data \<Rightarrow> oid option \<Rightarrow> citizen \<Rightarrow> error + citizen \<times> db" where
  "setStatus env d nationalId data userId c =
     (if truthy (cd_status data) then
        (let oldStatus = c_status c;
             c' = c\<lparr>c_status := toUpperCase (the (cd_status data))\<rparr>
         in if oldStatus \<noteq> c_status c' then
              (case createStatusChangeLog env d nationalId oldStatus (c_status c') userId of
                 Inl e \<Rightarrow> Inl e
               | Inr d' \<Rightarrow> Inr (c', d'))
            else Inr (c', d))
      else Inr (c, d))"

text \<open>
  \<^verbatim>\<open>citizen.save()\<close>: the validators of the Citizen schema, then the update, which the store
  may refuse.
\<close>

definition citizenValid :: "call_env \<Rightarrow> citizen \<Rightarrow> bool" where
  "citizenValid env c =
     (c_firstName c \<noteq> [] \<and> length (c_firstName c) \<le> 100 \<and>
      (case c_middleName c of None \<Rightarrow> True | Some m \<Rightarrow> length m \<le> 100) \<and>
      c_lastName c \<noteq> [] \<and> length (c_lastName c) \<le> 100 \<and>
      c_gender c \<in> {''MALE'', ''FEMALE''} \<and>
      c_dateOfBirth c \<le> e_today env \<and> e_hundredYearsAgo env \<le> c_dateOfBirth c \<and>
      c_placeOfBirth c \<noteq> [] \<and> length (c_placeOfBirth c) \<le> 200 \<and>
      length (c_nationality c) \<le> 100 \<and>
      c_status c \<in> {''ACTIVE'', ''DECEASED''})"

definition saveChecked :: "call_env \<Rightarrow> citizen \<Rightarrow> bool \<Rightarrow> db \<Rightarrow> error + db" where
  "saveChecked env c invalidDate d =
     (if invalidDate then Inl (ValidationError ''dateOfBirth'')
      else if \<not> citizenValid env c then Inl (ValidationError ''citizen'')
      else if \<not> e_saveOk env then Inl StoreError
      else Inr (saveCitizen c d))"

text \<open>
  \<^verbatim>\<open>CitizenService.updateCitizen\<close>.  An error thrown before the log row is written leaves
  the store as it was; one thrown by \<^verbatim>\<open>save()\<close> leaves the store with the row.
\<close>

definition updateCitizen ::
  "call_env \<Rightarrow> db \<Rightarrow> string \<Rightarrow> citizen_data \<Rightarrow> oid option \<Rightarrow> (error + citizen_view) \<times> db" where
  "updateCitizen env d nationalId data userId =
     (case find (\<lambda>c. c_nationalId c = nationalId \<and> c_deletedAt c = None) (citizens d) of
        None \<Rightarrow> (Inl (Error ''Citizen not found''), d)
      | Some citizen \<Rightarrow>
          (case setGender data (setNames data citizen) of
             Inl e \<Rightarrow> (Inl e, d)
           | Inr c1 \<Rightarrow>
               (case setDateOfBirth env data c1 of
                  Inl e \<Rightarrow> (Inl e, d)
                | Inr (c2, invalidDate) \<Rightarrow>
                    (case setStatus env d nationalId data userId (setPlace data c2) of
                       Inl e \<Rightarrow> (Inl e, d)
                     | Inr (c3, d1) \<Rightarrow>
                         (case saveChecked env c3 invalidDate d1 of
                            Inl e \<Rightarrow> (Inl e, d1)
                          | Inr d2 \<Rightarrow> (Inr (normalizeCitizen (e_baseUrl env) c3), d2))))))"

text \<open>
  The handler of \<^verbatim>\<open>POST /api/citizens/:nationalId/status\<close>: the body's status must be one
  of the two values, and the update carries the status alone, with the authenticated user
  as the actor.
\<close>

definition statusOnly :: "string \<Rightarrow> citizen_data" where
  "statusOnly s =
     \<lparr> cd_firstName = None, cd_middleName = None, cd_lastName = None, cd_gender = None,
       cd_dateOfBirth = None, cd_placeOfBirth = None, cd_nationality = None,
       cd_status = Some s \<rparr>"

definition changeStatus ::
  "call_env \<Rightarrow> db \<Rightarrow> string \<Rightarrow> string \<Rightarrow> oid \<Rightarrow> (error + citizen_view) \<times> db" where
  "changeStatus env d nationalId s userId =
     (if s \<notin> {''ACTIVE'', ''DECEASED''} then (Inl (ValidationError ''Validation error''), d)
      else updateCitizen env d nationalId (statusOnly s) (Some userId))"

section \<open>Lifecycle: soft delete and restore\<close>

text \<open>
  Every operation returns its outcome together with the store it leaves behind, so that a
  failed call shows what it wrote before failing.  \<open>now\<close> is the value of
  \<^verbatim>\<open>new Date()\<close> at the call.
\<close>







section \<open>A sample store\<close>

text \<open>
  A store in the shape the seeder leaves, with one menu that needs no permission, users in
  each lifecycle state and citizens in and out of the trash.
\<close>

definition exPermissions :: "permission list" where
  "exPermissions =
     [\<lparr> p_id = ''p1'', p_code = ''MANAGE_USERS'', p_name = ''Manage Users'', p_description = [] \<rparr>,
      \<lparr> p_id = ''p2'', p_code = ''VIEW_CITIZEN'', p_name = ''View Citizens'', p_description = [] \<rparr>,
      \<lparr> p_id = ''p3'', p_code = ''CREATE_CITIZEN'', p_name = ''Create Citizens'', p_description = [] \<rparr>,
      \<lparr> p_id = ''p4'', p_code = ''VIEW_DASHBOARD'', p_name = ''View Dashboard'', p_description = [] \<rparr>]"

definition exAdmin :: role where
  "exAdmin = \<lparr> r_id = ''r1'', r_name = ''ADMIN'', r_description = [],
                r_permissions = [''p1'', ''p2'', ''p3'', ''p4''] \<rparr>"

definition exOfficer :: role where
  "exOfficer = \<lparr> r_id = ''r2'', r_name = ''OFFICER'', r_description = [],
                  r_permissions = [''p2'', ''p3'', ''p4''] \<rparr>"

definition exViewer :: role where
  "exViewer = \<lparr> r_id = ''r3'', r_name = ''VIEWER'', r_description = [],
                 r_permissions = [''p2'', ''p4''] \<rparr>"

definition exDashboard :: menu where
  "exDashboard = \<lparr> m_id = ''m1'', m_name = ''Dashboard'', m_route = Some ''/dashboard'',
     m_icon = Some ''home'', m_parentId = None, m_orderIndex = 1,
     m_permissionCode = Some ''VIEW_DASHBOARD'' \<rparr>"

definition exCitizens :: menu where
  "exCitizens = \<lparr> m_id = ''m2'', m_name = ''Citizens'', m_route = Some ''/citizens'',
     m_icon = Some ''users'', m_parentId = None, m_orderIndex = 2,
     m_permissionCode = Some ''VIEW_CITIZEN'' \<rparr>"

definition exAddCitizen :: menu where
  "exAddCitizen = \<lparr> m_id = ''m3'', m_name = ''Add Citizen'', m_route = Some ''/citizens/create'',
     m_icon = Some ''user-plus'', m_parentId = Some ''m2'', m_orderIndex = 3,
     m_permissionCode = Some ''CREATE_CITIZEN'' \<rparr>"

definition exNotices :: menu where
  "exNotices = \<lparr> m_id = ''m4'', m_name = ''Notices'', m_route = Some ''/notices'',
     m_icon = None, m_parentId = None, m_orderIndex = 4, m_permissionCode = None \<rparr>"

definition exAmina :: user where
  "exAmina = \<lparr> u_id = ''u1'', u_username = ''amina'', u_password = ''bcrypt-hash'', u_roleId = Some ''r1'',
     u_role = ''ADMIN'', u_status = ''ACTIVE'', u_phoneNumber = None,
     u_profilePicturePath = None, u_deletedAt = None, u_createdAt = 10 \<rparr>"

definition exBashir :: user where
  "exBashir = \<lparr> u_id = ''u2'', u_username = ''bashir'', u_password = ''bcrypt-hash'', u_roleId = Some ''r1'',
     u_role = ''ADMIN'', u_status = ''DISABLED'', u_phoneNumber = None,
     u_profilePicturePath = None, u_deletedAt = None, u_createdAt = 20 \<rparr>"

definition exCawil :: user where
  "exCawil = \<lparr> u_id = ''u3'', u_username = ''cawil'', u_password = ''bcrypt-hash'', u_roleId = Some ''r2'',
     u_role = ''OFFICER'', u_status = ''ACTIVE'', u_phoneNumber = None,
     u_profilePicturePath = None, u_deletedAt = Some 50, u_createdAt = 30 \<rparr>"

definition exDahir :: user where
  "exDahir = \<lparr> u_id = ''u4'', u_username = ''dahir'', u_password = ''bcrypt-hash'', u_roleId = Some ''r9'',
     u_role = ''VIEWER'', u_status = ''ACTIVE'', u_phoneNumber = None,
     u_profilePicturePath = None, u_deletedAt = None, u_createdAt = 40 \<rparr>"

definition exHodan :: citizen where
  "exHodan = \<lparr> c_id = ''c1'', c_nationalId = ''1000000001'', c_firstName = ''Hodan'',
     c_middleName = None, c_lastName = ''Ali'', c_gender = ''FEMALE'', c_dateOfBirth = 5,
     c_placeOfBirth = ''Hargeisa'', c_nationality = ''Somali'', c_imagePath = None,
     c_documentPath = None, c_status = ''ACTIVE'', c_deletedAt = None, c_createdAt = 10 \<rparr>"

definition exIdris :: citizen where
  "exIdris = \<lparr> c_id = ''c2'', c_nationalId = ''1000000002'', c_firstName = ''Idris'',
     c_middleName = None, c_lastName = ''Nur'', c_gender = ''MALE'', c_dateOfBirth = 6,
     c_placeOfBirth = ''Berbera'', c_nationality = ''Somali'', c_imagePath = None,
     c_documentPath = None, c_status = ''ACTIVE'', c_deletedAt = Some 40, c_createdAt = 20 \<rparr>"

definition exJama :: citizen where
  "exJama = \<lparr> c_id = ''c3'', c_nationalId = ''1000000003'', c_firstName = ''Jama'',
     c_middleName = None, c_lastName = ''Omar'', c_gender = ''MALE'', c_dateOfBirth = 7,
     c_placeOfBirth = ''Burco'', c_nationality = ''Somali'', c_imagePath = None,
     c_documentPath = None, c_status = ''DECEASED'', c_deletedAt = None, c_createdAt = 30 \<rparr>"

definition exDb :: db where
  "exDb = \<lparr> users = [exAmina, exBashir, exCawil, exDahir],
            roles = [exAdmin, exOfficer, exViewer],
            permissions = exPermissions,
            menus = [exDashboard, exCitizens, exAddCitizen, exNotices],
            citizens = [exHodan, exIdris, exJama],
            statusChangeLogs = [] \<rparr>"


text \<open>The sample store with no permission attached to any role.\<close>

definition exBareDb :: db where
  "exBareDb = exDb\<lparr>roles := [exAdmin\<lparr>r_permissions := []\<rparr>,
                              exOfficer\<lparr>r_permissions := []\<rparr>,
                              exViewer\<lparr>r_permissions := []\<rparr>]\<rparr>"

text \<open>
  The sample store with a second citizen and a second user in the trash, each deleted after
  the one already there.
\<close>

definition exKhadra :: citizen where
  "exKhadra = \<lparr> c_id = ''c4'', c_nationalId = ''1000000004'', c_firstName = ''Khadra'',
     c_middleName = None, c_lastName = ''Yusuf'', c_gender = ''FEMALE'', c_dateOfBirth = 8,
     c_placeOfBirth = ''Borama'', c_nationality = ''Somali'', c_imagePath = None,
     c_documentPath = None, c_status = ''ACTIVE'', c_deletedAt = Some 60, c_createdAt = 35 \<rparr>"

definition exEbla :: user where
  "exEbla = \<lparr> u_id = ''u8'', u_username = ''ebla'', u_password = ''bcrypt-hash'',
     u_roleId = Some ''r3'', u_role = ''VIEWER'', u_status = ''ACTIVE'', u_phoneNumber = None,
     u_profilePicturePath = None, u_deletedAt = Some 70, u_createdAt = 45 \<rparr>"

definition exTrashDb :: db where
  "exTrashDb = exDb\<lparr> users := users exDb @ [exEbla], citizens := citizens exDb @ [exKhadra] \<rparr>"

definition exVerify :: "string \<Rightarrow> jwt_result" where
  "exVerify t =
     (if t = ''tok1'' then Decoded ''u1''
      else if t = ''tok2'' then Decoded ''u2''
      else if t = ''tok3'' then Decoded ''u3''
      else JsonWebTokenError)"

definition exNewCawil :: user_data where
  "exNewCawil =
     \<lparr> ud_username = Some ''cawil'', ud_password = Some ''secret1'', ud_role_id = None,
       ud_roleId = Some ''r2'', ud_status = None, ud_phoneNumber = None,
       ud_profilePicturePath = None \<rparr>"

section \<open>Auxiliary facts\<close>

lemmas ex_defs =
  exDb_def exAmina_def exBashir_def exCawil_def exDahir_def exHodan_def exIdris_def exJama_def
  exAdmin_def exOfficer_def exViewer_def exPermissions_def
  exDashboard_def exCitizens_def exAddCitizen_def exNotices_def

lemma find_SomeD: "find P xs = Some x \<Longrightarrow> P x \<and> x \<in> set xs"
  by (induction xs) (auto split: if_splits)


section \<open>Soft delete\<close>



section \<open>Restore\<close>


















section \<open>Permission resolution\<close>

lemma set_map_filter: "set (List.map_filter f xs) = {y. \<exists>x \<in> set xs. f x = Some y}"
  by (induction xs) (auto simp: List.map_filter_simps split: option.splits)

text \<open>
  Claim C5.  For a principal that exists and whose role reference resolves to a role \<open>r\<close>,
  \<^verbatim>\<open>getUserPermissions\<close> returns, as a set, exactly the codes of the Permission documents
  attached to \<open>r\<close>.  For an id that refers to no principal, and for a principal whose role
  reference is missing or resolves to no role, it returns the empty list; being a total
  function into lists it raises nothing, whether or not the store answers.
\<close>

theorem resolve_permissions_exact:
  "(findUserById d userId = Some u \<and> u_roleId u = Some rid \<and> findRoleById d rid = Some r \<longrightarrow>
      set (getUserPermissions True d userId) =
        {p_code p |p i. i \<in> set (r_permissions r) \<and> findPermissionById d i = Some p}) \<and>
   (findUserById d userId = None \<longrightarrow> getUserPermissions storeOk d userId = []) \<and>
   (findUserById d userId = Some u \<and> u_roleId u = None \<longrightarrow>
      getUserPermissions storeOk d userId = []) \<and>
   (findUserById d userId = Some u \<and> u_roleId u = Some rid \<and> findRoleById d rid = None \<longrightarrow>
      getUserPermissions storeOk d userId = [])"
  by (auto simp: getUserPermissions_def populateRole_def populatePermissions_def set_map_filter)

text \<open>
  In the sample store \<open>u3\<close> is an officer, \<open>u7\<close> is nobody and \<open>u4\<close> refers to the role
  \<open>r9\<close>, which does not exist.
\<close>

theorem resolve_permissions_exact_witness:
  "getUserPermissions True exDb ''u3'' = [''VIEW_CITIZEN'', ''CREATE_CITIZEN'', ''VIEW_DASHBOARD''] \<and>
   set (getUserPermissions True exDb ''u3'')
     = {p_code p |p i. i \<in> set (r_permissions exOfficer) \<and> findPermissionById exDb i = Some p} \<and>
   getUserPermissions True exDb ''u7'' = [] \<and>
   getUserPermissions True exDb ''u4'' = []"
proof -
  have u3: "findUserById exDb ''u3'' = Some exCawil" "u_roleId exCawil = Some ''r2''"
     "findRoleById exDb ''r2'' = Some exOfficer"
    by (simp_all add: findUserById_def findRoleById_def ex_defs)
  have u7: "findUserById exDb ''u7'' = None"
    by (simp add: findUserById_def ex_defs)
  have u4: "findUserById exDb ''u4'' = Some exDahir" "u_roleId exDahir = Some ''r9''"
     "findRoleById exDb ''r9'' = None"
    by (simp_all add: findUserById_def findRoleById_def ex_defs)
  have v: "getUserPermissions True exDb ''u3''
             = [''VIEW_CITIZEN'', ''CREATE_CITIZEN'', ''VIEW_DASHBOARD'']"
    by (simp add: getUserPermissions_def populateRole_def populatePermissions_def
        List.map_filter_simps findUserById_def findRoleById_def findPermissionById_def ex_defs)
  from resolve_permissions_exact [of exDb "''u3''" exCawil "''r2''" exOfficer True] u3
  have a: "set (getUserPermissions True exDb ''u3'')
     = {p_code p |p i. i \<in> set (r_permissions exOfficer) \<and> findPermissionById exDb i = Some p}"
    by blast
  from resolve_permissions_exact [of exDb "''u7''" exCawil "''r2''" exOfficer True] u7
  have b: "getUserPermissions True exDb ''u7'' = []" by blast
  from resolve_permissions_exact [of exDb "''u4''" exDahir "''r9''" exOfficer True] u4
  have c: "getUserPermissions True exDb ''u4'' = []" by blast
  from v a b c show ?thesis by blast
qed

section \<open>Access guard\<close>

text \<open>
  Claim C2.  The check of the account status and of the soft-delete marker is made by
  \<^verbatim>\<open>authenticate\<close>, which every protected route runs before \<^verbatim>\<open>requirePermission\<close>.  For
  a token that identifies a principal whose status is not \<open>ACTIVE\<close> or whose \<open>deletedAt\<close>
  is set, the guard ends the request in \<^verbatim>\<open>authenticate\<close>: the answer is a denial whatever
  codes are required, it is never \<open>Next\<close>, and it is the same for every content of the
  role and permission collections, so permission resolution has no part in it.
\<close>

theorem inactive_principal_denied:
  "verify token = Decoded userId \<and> findUserById d userId = Some u \<and>
   (u_status u \<noteq> ''ACTIVE'' \<or> u_deletedAt u \<noteq> None) \<longrightarrow>
     authorize verify authOk permOk d (Some (''Bearer '' @ token)) codes =
       (if \<not> authOk then Status 500 ''Authentication error''
        else if u_status u \<noteq> ''ACTIVE'' then Status 401 ''User account is disabled''
        else Status 401 ''User account has been deleted'') \<and>
     authorize verify authOk permOk d (Some (''Bearer '' @ token)) codes \<noteq> Next \<and>
     authorize verify authOk permOk (d\<lparr>roles := rs, permissions := ps\<rparr>)
         (Some (''Bearer '' @ token)) codes
       = authorize verify authOk permOk d (Some (''Bearer '' @ token)) codes"
  by (auto simp: authorize_def authenticate_def findUserById_def)

text \<open>
  In the sample store \<open>u2\<close> is a disabled administrator and \<open>u3\<close> a trashed officer.  The
  administrator's role holds \<open>MANAGE_USERS\<close>, so \<^verbatim>\<open>requirePermission\<close> would let the
  request pass if it were reached; the guard denies both.
\<close>

theorem inactive_principal_denied_witness:
  "requirePermission [''MANAGE_USERS''] True exDb
     (newRequest\<lparr>req_user := Some (exBashir, RefDoc exAdmin)\<rparr>) = Next \<and>
   authorize exVerify True True exDb (Some ''Bearer tok2'') [''MANAGE_USERS'']
     = Status 401 ''User account is disabled'' \<and>
   authorize exVerify True True exDb (Some ''Bearer tok3'') [''VIEW_CITIZEN'']
     = Status 401 ''User account has been deleted''"
proof -
  have r: "requirePermission [''MANAGE_USERS''] True exDb
     (newRequest\<lparr>req_user := Some (exBashir, RefDoc exAdmin)\<rparr>) = Next"
    by (simp add: requirePermission_def newRequest_def findRoleById_def populatePermissions_def
        List.map_filter_simps findPermissionById_def ex_defs)
  have u2: "exVerify ''tok2'' = Decoded ''u2''" "findUserById exDb ''u2'' = Some exBashir"
     "u_status exBashir \<noteq> ''ACTIVE''"
    by (simp_all add: exVerify_def findUserById_def ex_defs)
  have u3: "exVerify ''tok3'' = Decoded ''u3''" "findUserById exDb ''u3'' = Some exCawil"
     "u_status exCawil = ''ACTIVE''" "u_deletedAt exCawil \<noteq> None"
    by (simp_all add: exVerify_def findUserById_def ex_defs)
  from inactive_principal_denied
         [of exVerify "''tok2''" "''u2''" exDb exBashir True True "[''MANAGE_USERS'']"] u2
  have a: "authorize exVerify True True exDb (Some ''Bearer tok2'') [''MANAGE_USERS'']
             = Status 401 ''User account is disabled''"
    by simp
  from inactive_principal_denied
         [of exVerify "''tok3''" "''u3''" exDb exCawil True True "[''VIEW_CITIZEN'']"] u3
  have b: "authorize exVerify True True exDb (Some ''Bearer tok3'') [''VIEW_CITIZEN'']
             = Status 401 ''User account has been deleted''"
    by simp
  from r a b show ?thesis by simp
qed

section \<open>Username uniqueness\<close>

text \<open>
  What the explicit check of \<^verbatim>\<open>createUser\<close> does on its own: the error
  \<open>Username already exists\<close> is raised only when a non-deleted user holds the trimmed name,
  it is raised whenever one does and the request has passed the checks before it, and a
  successful call appends one user and leaves every stored user as it was.
\<close>

lemma find_hit: "x \<in> set xs \<Longrightarrow> P x \<Longrightarrow> \<exists>y. find P xs = Some y"
  by (induction xs) auto

lemma createUser_appends:
  "createUser b h i n d data = (Inr v, d') \<Longrightarrow>
     \<exists>u. d' = d\<lparr>users := users d @ [u]\<rparr> \<and> u_deletedAt u = None \<and>
         u_username u = trim (the (ud_username data))"
  by (auto simp: createUser_def insertUser_def Let_def split: if_splits option.splits sum.splits)

lemma createUser_name_taken_only_if:
  "fst (createUser b h i n d data) = Inl (Error ''Username already exists'') \<Longrightarrow>
     \<exists>u \<in> set (users d). u_username u = trim (the (ud_username data)) \<and> u_deletedAt u = None"
  by (auto simp: createUser_def insertUser_def Let_def
      split: if_splits option.splits sum.splits dest!: find_SomeD)

lemma createUser_name_taken_if:
  assumes "truthy (ud_username data)" and "3 \<le> length (trim (the (ud_username data)))"
    and "length (trim (the (ud_username data))) \<le> 100"
    and "truthy (ud_password data)" and "trim (the (ud_password data)) \<noteq> []"
    and "6 \<le> length (the (ud_password data))"
    and "truthy (ud_role_id data) \<or> truthy (ud_roleId data)"
    and "findRoleById d (the (orElse (ud_role_id data) (ud_roleId data))) = Some r"
    and "u \<in> set (users d)" and "u_username u = trim (the (ud_username data))"
    and "u_deletedAt u = None"
  shows "createUser b h i n d data = (Inl (Error ''Username already exists''), d)"
proof -
  from assms(9,10,11)
  have "find (\<lambda>u. u_username u = trim (the (ud_username data)) \<and> u_deletedAt u = None) (users d) \<noteq> None"
    using find_hit [of u "users d" "\<lambda>u. u_username u = trim (the (ud_username data)) \<and> u_deletedAt u = None"]
    by auto
  with assms(1-8) show ?thesis
    by (auto simp: createUser_def Let_def)
qed

text \<open>
  Claim C10 at a failing input.  In the sample store the name \<open>cawil\<close> is held only by the
  trashed user \<open>u3\<close>.  The check of \<^verbatim>\<open>createUser\<close>, which looks at non-deleted users only,
  finds nobody and lets the request through; the insert is then rejected by the unique
  index that the User schema puts on \<^verbatim>\<open>username\<close>, so the name cannot be reused.
\<close>

theorem create_user_with_trashed_name:
  "find (\<lambda>u. u_username u = ''cawil'' \<and> u_deletedAt u = None) (users exDb) = None \<and>
   find (\<lambda>u. u_username u = ''cawil'') (users exDb) = Some exCawil \<and>
   u_deletedAt exCawil = Some 50 \<and>
   createUser ''http://localhost:3000'' (\<lambda>p. p) ''u5'' 70 exDb exNewCawil
     = (Inl (DuplicateKeyError ''username''), exDb)"
  by (simp add: createUser_def truthy_def trim_def is_space_def orElse_def findRoleById_def
      insertUser_def Let_def exNewCawil_def ex_defs)

text \<open>The call ends in an error, so no user named \<open>cawil\<close> is created.\<close>

theorem create_user_with_trashed_name_witness:
  "isl (fst (createUser ''http://localhost:3000'' (\<lambda>p. p) ''u5'' 70 exDb exNewCawil))"
  using create_user_with_trashed_name by simp

section \<open>Listings\<close>

lemma skipLimit_whole: "int (length xs) < L \<Longrightarrow> skipLimit 0 L xs = Inr xs"
  by (simp add: skipLimit_def)

lemma skipLimit_page:
  "1 \<le> page \<Longrightarrow> 1 \<le> limit \<Longrightarrow>
   skipLimit ((page - 1) * limit) limit xs = Inr (take (nat limit) (drop (nat ((page - 1) * limit)) xs))"
proof -
  assume "1 \<le> page" "1 \<le> limit"
  then have "0 \<le> (page - 1) * limit" by simp
  with \<open>1 \<le> limit\<close> show ?thesis by (simp add: skipLimit_def)
qed

lemma sorted_desc_sort_key:
  fixes f :: "'a \<Rightarrow> int"
  shows "sorted_wrt (\<lambda>x y. f y \<le> f x) (sort_key (\<lambda>x. - f x) xs)"
proof -
  have "sorted (map (\<lambda>x. - f x) (sort_key (\<lambda>x. - f x) xs))"
    by (rule sorted_sort_key)
  then show ?thesis by (simp add: sorted_map)
qed

lemma sorted_desc_deleted:
  assumes "\<forall>x \<in> set xs. f x \<noteq> None"
  shows "sorted_wrt (\<lambda>x y. \<exists>s t. f x = Some s \<and> f y = Some t \<and> t \<le> s)
           (sort_key (\<lambda>x. - deletedKey (f x)) xs)"
proof -
  have "sorted_wrt (\<lambda>x y. deletedKey (f y) \<le> deletedKey (f x))
          (sort_key (\<lambda>x. - deletedKey (f x)) xs)"
    by (rule sorted_desc_sort_key)
  then show ?thesis
  proof (rule sorted_wrt_mono_rel [rotated])
    fix x y
    assume "x \<in> set (sort_key (\<lambda>x. - deletedKey (f x)) xs)"
      and "y \<in> set (sort_key (\<lambda>x. - deletedKey (f x)) xs)"
      and le: "deletedKey (f y) \<le> deletedKey (f x)"
    with assms have "f x \<noteq> None" "f y \<noteq> None" by simp_all
    then obtain s t where "f x = Some s" "f y = Some t" by blast
    with le show "\<exists>s t. f x = Some s \<and> f y = Some t \<and> t \<le> s"
      by (simp add: deletedKey_def)
  qed
qed

lemma distinct_map_sort_key: "distinct (map f xs) \<Longrightarrow> distinct (map f (sort_key k xs))"
  by (simp add: distinct_map)

lemma cv_id_normalize: "cv_id (normalizeCitizen b c) = c_id c"
  by (simp add: normalizeCitizen_def)

lemma cv_createdAt_normalize: "cv_createdAt (normalizeCitizen b c) = c_createdAt c"
  by (simp add: normalizeCitizen_def)

lemma uv_id_normalize: "uv_id (normalizeUser b u r) = u_id u"
  by (simp add: normalizeUser_def)

lemma uv_createdAt_normalize: "uv_createdAt (normalizeUser b u r) = u_createdAt u"
  by (simp add: normalizeUser_def)

lemma whole_gt_citizens: "int (length (filter P (citizens d))) < wholeLimit d"
  using length_filter_le [of P "citizens d"] unfolding wholeLimit_def by linarith

lemma whole_gt_users: "int (length (filter P (users d))) < wholeLimit d"
  using length_filter_le [of P "users d"] unfolding wholeLimit_def by linarith

lemma listCitizens_whole:
  "pageData (listCitizens b d 1 (wholeLimit d)) =
     map (normalizeCitizen b) (sort_key (\<lambda>c. - c_createdAt c) (filter (\<lambda>c. c_deletedAt c = None) (citizens d)))"
  by (simp add: listCitizens_def pageData_def Let_def skipLimit_whole whole_gt_citizens)

lemma listCitizens_page:
  "1 \<le> page \<Longrightarrow> 1 \<le> limit \<Longrightarrow>
   pageData (listCitizens b d page limit) =
     take (nat limit) (drop (nat ((page - 1) * limit)) (pageData (listCitizens b d 1 (wholeLimit d))))"
  by (simp add: listCitizens_whole) (simp add: listCitizens_def pageData_def Let_def skipLimit_page take_map drop_map)

lemma listCitizenTrash_whole:
  "pageData (listCitizenTrash b d 1 (wholeLimit d)) =
     map (normalizeCitizen b) (sort_key (\<lambda>c. - deletedKey (c_deletedAt c)) (filter (\<lambda>c. c_deletedAt c \<noteq> None) (citizens d)))"
  by (simp add: listCitizenTrash_def pageData_def Let_def skipLimit_whole whole_gt_citizens)

lemma listCitizenTrash_page:
  "1 \<le> page \<Longrightarrow> 1 \<le> limit \<Longrightarrow>
   pageData (listCitizenTrash b d page limit) =
     take (nat limit) (drop (nat ((page - 1) * limit)) (pageData (listCitizenTrash b d 1 (wholeLimit d))))"
  by (simp add: listCitizenTrash_whole) (simp add: listCitizenTrash_def pageData_def Let_def skipLimit_page take_map drop_map)

lemma listUsers_whole:
  "pageData (listUsers b d 1 (wholeLimit d)) =
     map (\<lambda>u. normalizeUser b u (populateRole d u)) (sort_key (\<lambda>u. - u_createdAt u) (filter (\<lambda>u. u_deletedAt u = None) (users d)))"
  by (simp add: listUsers_def pageData_def Let_def skipLimit_whole whole_gt_users)

lemma listUsers_page:
  "1 \<le> page \<Longrightarrow> 1 \<le> limit \<Longrightarrow>
   pageData (listUsers b d page limit) =
     take (nat limit) (drop (nat ((page - 1) * limit)) (pageData (listUsers b d 1 (wholeLimit d))))"
  by (simp add: listUsers_whole) (simp add: listUsers_def pageData_def Let_def skipLimit_page take_map drop_map)

lemma listUserTrash_whole:
  "pageData (listUserTrash b d 1 (wholeLimit d)) =
     map (\<lambda>u. normalizeUser b u (populateRole d u)) (sort_key (\<lambda>u. - deletedKey (u_deletedAt u)) (filter (\<lambda>u. u_deletedAt u \<noteq> None) (users d)))"
  by (simp add: listUserTrash_def pageData_def Let_def skipLimit_whole whole_gt_users)

lemma listUserTrash_page:
  "1 \<le> page \<Longrightarrow> 1 \<le> limit \<Longrightarrow>
   pageData (listUserTrash b d page limit) =
     take (nat limit) (drop (nat ((page - 1) * limit)) (pageData (listUserTrash b d 1 (wholeLimit d))))"
  by (simp add: listUserTrash_whole) (simp add: listUserTrash_def pageData_def Let_def skipLimit_page take_map drop_map)

text \<open>Generic facts about a filtered, sorted, projected collection.\<close>

lemma ids_of_sorted_filter:
  "set (map f (sort_key k (filter P xs))) = f ` {x \<in> set xs. P x}"
  by auto

lemma ids_distinct:
  "distinct (map f xs) \<Longrightarrow> distinct (map f (sort_key k (filter P xs)))"
  by (simp add: distinct_map_sort_key distinct_map_filter)

lemma ids_disjoint:
  "distinct (map f xs) \<Longrightarrow> f ` {x \<in> set xs. P x} \<inter> f ` {x \<in> set xs. \<not> P x} = {}"
  by (auto simp: distinct_map dest: inj_onD)

lemma ids_cover:
  "f ` {x \<in> set xs. P x} \<union> f ` {x \<in> set xs. \<not> P x} = f ` set xs"
  by auto


lemma citizen_ids_active:
  "listedCitizens (listCitizens b d 1 (wholeLimit d)) =
     map c_id (sort_key (\<lambda>c. - c_createdAt c) (filter (\<lambda>c. c_deletedAt c = None) (citizens d)))"
  by (simp add: listedCitizens_def listCitizens_whole cv_id_normalize o_def)

lemma citizen_ids_trash:
  "listedCitizens (listCitizenTrash b d 1 (wholeLimit d)) =
     map c_id (sort_key (\<lambda>c. - deletedKey (c_deletedAt c))
       (filter (\<lambda>c. \<not> c_deletedAt c = None) (citizens d)))"
  by (simp add: listedCitizens_def listCitizenTrash_whole cv_id_normalize o_def)

lemma user_ids_active:
  "listedUsers (listUsers b d 1 (wholeLimit d)) =
     map u_id (sort_key (\<lambda>u. - u_createdAt u) (filter (\<lambda>u. u_deletedAt u = None) (users d)))"
  by (simp add: listedUsers_def listUsers_whole uv_id_normalize o_def)

lemma user_ids_trash:
  "listedUsers (listUserTrash b d 1 (wholeLimit d)) =
     map u_id (sort_key (\<lambda>u. - deletedKey (u_deletedAt u))
       (filter (\<lambda>u. \<not> u_deletedAt u = None) (users d)))"
  by (simp add: listedUsers_def listUserTrash_whole uv_id_normalize o_def)

lemma citizen_listings:
  assumes dc: "distinct (map c_id (citizens d))"
  shows "set (listedCitizens (listCitizens b d 1 (wholeLimit d)))
           = c_id ` {c \<in> set (citizens d). c_deletedAt c = None}"
    and "set (listedCitizens (listCitizenTrash b d 1 (wholeLimit d)))
           = c_id ` {c \<in> set (citizens d). c_deletedAt c \<noteq> None}"
    and "distinct (listedCitizens (listCitizens b d 1 (wholeLimit d)))"
    and "distinct (listedCitizens (listCitizenTrash b d 1 (wholeLimit d)))"
    and "set (listedCitizens (listCitizens b d 1 (wholeLimit d))) \<inter>
         set (listedCitizens (listCitizenTrash b d 1 (wholeLimit d))) = {}"
    and "set (listedCitizens (listCitizens b d 1 (wholeLimit d))) \<union>
         set (listedCitizens (listCitizenTrash b d 1 (wholeLimit d))) = c_id ` set (citizens d)"
proof -
  show a: "set (listedCitizens (listCitizens b d 1 (wholeLimit d)))
           = c_id ` {c \<in> set (citizens d). c_deletedAt c = None}"
    unfolding citizen_ids_active by (rule ids_of_sorted_filter)
  show t: "set (listedCitizens (listCitizenTrash b d 1 (wholeLimit d)))
           = c_id ` {c \<in> set (citizens d). c_deletedAt c \<noteq> None}"
    unfolding citizen_ids_trash by (rule ids_of_sorted_filter)
  show "distinct (listedCitizens (listCitizens b d 1 (wholeLimit d)))"
    unfolding citizen_ids_active using dc by (rule ids_distinct)
  show "distinct (listedCitizens (listCitizenTrash b d 1 (wholeLimit d)))"
    unfolding citizen_ids_trash using dc by (rule ids_distinct)
  show "set (listedCitizens (listCitizens b d 1 (wholeLimit d))) \<inter>
         set (listedCitizens (listCitizenTrash b d 1 (wholeLimit d))) = {}"
    unfolding a t using dc by (rule ids_disjoint)
  show "set (listedCitizens (listCitizens b d 1 (wholeLimit d))) \<union>
         set (listedCitizens (listCitizenTrash b d 1 (wholeLimit d))) = c_id ` set (citizens d)"
    unfolding a t by (rule ids_cover)
qed

lemma user_listings:
  assumes du: "distinct (map u_id (users d))"
  shows "set (listedUsers (listUsers b d 1 (wholeLimit d)))
           = u_id ` {u \<in> set (users d). u_deletedAt u = None}"
    and "set (listedUsers (listUserTrash b d 1 (wholeLimit d)))
           = u_id ` {u \<in> set (users d). u_deletedAt u \<noteq> None}"
    and "distinct (listedUsers (listUsers b d 1 (wholeLimit d)))"
    and "distinct (listedUsers (listUserTrash b d 1 (wholeLimit d)))"
    and "set (listedUsers (listUsers b d 1 (wholeLimit d))) \<inter>
         set (listedUsers (listUserTrash b d 1 (wholeLimit d))) = {}"
    and "set (listedUsers (listUsers b d 1 (wholeLimit d))) \<union>
         set (listedUsers (listUserTrash b d 1 (wholeLimit d))) = u_id ` set (users d)"
proof -
  show a: "set (listedUsers (listUsers b d 1 (wholeLimit d)))
           = u_id ` {u \<in> set (users d). u_deletedAt u = None}"
    unfolding user_ids_active by (rule ids_of_sorted_filter)
  show t: "set (listedUsers (listUserTrash b d 1 (wholeLimit d)))
           = u_id ` {u \<in> set (users d). u_deletedAt u \<noteq> None}"
    unfolding user_ids_trash by (rule ids_of_sorted_filter)
  show "distinct (listedUsers (listUsers b d 1 (wholeLimit d)))"
    unfolding user_ids_active using du by (rule ids_distinct)
  show "distinct (listedUsers (listUserTrash b d 1 (wholeLimit d)))"
    unfolding user_ids_trash using du by (rule ids_distinct)
  show "set (listedUsers (listUsers b d 1 (wholeLimit d))) \<inter>
         set (listedUsers (listUserTrash b d 1 (wholeLimit d))) = {}"
    unfolding a t using du by (rule ids_disjoint)
  show "set (listedUsers (listUsers b d 1 (wholeLimit d))) \<union>
         set (listedUsers (listUserTrash b d 1 (wholeLimit d))) = u_id ` set (users d)"
    unfolding a t by (rule ids_cover)
qed

lemma citizen_order:
  "sorted_wrt (\<lambda>x y. cv_createdAt y \<le> cv_createdAt x) (pageData (listCitizens b d 1 (wholeLimit d)))"
  "\<exists>cs. pageData (listCitizenTrash b d 1 (wholeLimit d)) = map (normalizeCitizen b) cs \<and>
        set cs = {c \<in> set (citizens d). c_deletedAt c \<noteq> None} \<and>
        sorted_wrt (\<lambda>x y. \<exists>s t. c_deletedAt x = Some s \<and> c_deletedAt y = Some t \<and> t \<le> s) cs"
proof -
  show "sorted_wrt (\<lambda>x y. cv_createdAt y \<le> cv_createdAt x) (pageData (listCitizens b d 1 (wholeLimit d)))"
    using sorted_desc_sort_key [of c_createdAt "filter (\<lambda>c. c_deletedAt c = None) (citizens d)"]
    by (simp add: listCitizens_whole sorted_wrt_map cv_createdAt_normalize)
  let ?cs = "sort_key (\<lambda>c. - deletedKey (c_deletedAt c)) (filter (\<lambda>c. c_deletedAt c \<noteq> None) (citizens d))"
  have "pageData (listCitizenTrash b d 1 (wholeLimit d)) = map (normalizeCitizen b) ?cs"
    by (rule listCitizenTrash_whole)
  moreover have "set ?cs = {c \<in> set (citizens d). c_deletedAt c \<noteq> None}" by simp
  moreover have "sorted_wrt (\<lambda>x y. \<exists>s t. c_deletedAt x = Some s \<and> c_deletedAt y = Some t \<and> t \<le> s) ?cs"
    by (rule sorted_desc_deleted) simp
  ultimately show "\<exists>cs. pageData (listCitizenTrash b d 1 (wholeLimit d)) = map (normalizeCitizen b) cs \<and>
        set cs = {c \<in> set (citizens d). c_deletedAt c \<noteq> None} \<and>
        sorted_wrt (\<lambda>x y. \<exists>s t. c_deletedAt x = Some s \<and> c_deletedAt y = Some t \<and> t \<le> s) cs"
    by blast
qed

lemma user_order:
  "sorted_wrt (\<lambda>x y. uv_createdAt y \<le> uv_createdAt x) (pageData (listUsers b d 1 (wholeLimit d)))"
  "\<exists>us. pageData (listUserTrash b d 1 (wholeLimit d)) = map (\<lambda>u. normalizeUser b u (populateRole d u)) us \<and>
        set us = {u \<in> set (users d). u_deletedAt u \<noteq> None} \<and>
        sorted_wrt (\<lambda>x y. \<exists>s t. u_deletedAt x = Some s \<and> u_deletedAt y = Some t \<and> t \<le> s) us"
proof -
  show "sorted_wrt (\<lambda>x y. uv_createdAt y \<le> uv_createdAt x) (pageData (listUsers b d 1 (wholeLimit d)))"
    using sorted_desc_sort_key [of u_createdAt "filter (\<lambda>u. u_deletedAt u = None) (users d)"]
    by (simp add: listUsers_whole sorted_wrt_map uv_createdAt_normalize)
  let ?us = "sort_key (\<lambda>u. - deletedKey (u_deletedAt u)) (filter (\<lambda>u. u_deletedAt u \<noteq> None) (users d))"
  have "pageData (listUserTrash b d 1 (wholeLimit d)) = map (\<lambda>u. normalizeUser b u (populateRole d u)) ?us"
    by (rule listUserTrash_whole)
  moreover have "set ?us = {u \<in> set (users d). u_deletedAt u \<noteq> None}" by simp
  moreover have "sorted_wrt (\<lambda>x y. \<exists>s t. u_deletedAt x = Some s \<and> u_deletedAt y = Some t \<and> t \<le> s) ?us"
    by (rule sorted_desc_deleted) simp
  ultimately show "\<exists>us. pageData (listUserTrash b d 1 (wholeLimit d)) = map (\<lambda>u. normalizeUser b u (populateRole d u)) us \<and>
        set us = {u \<in> set (users d). u_deletedAt u \<noteq> None} \<and>
        sorted_wrt (\<lambda>x y. \<exists>s t. u_deletedAt x = Some s \<and> u_deletedAt y = Some t \<and> t \<le> s) us"
    by blast
qed

text \<open>
Claim C8.  In a store whose ids are unique, for citizens and for users alike: the whole
  active listing holds exactly the entities with \<open>deletedAt = null\<close>, each once, newest
  created first; the whole trash listing holds exactly the entities with \<open>deletedAt\<close> set,
  each once, most recently deleted first; no entity is in both and every stored entity is
  in one of them; and for a positive page number and page size, a page of either listing is
  the slice of the whole listing that starts at \<open>(page - 1) * limit\<close> and has at most
  \<open>limit\<close> entries.
\<close>

theorem listings_partition_entities:
  assumes dc: "distinct (map c_id (citizens d))" and du: "distinct (map u_id (users d))"
    and pg: "1 \<le> page" and lm: "1 \<le> limit"
  shows
   "set (listedCitizens (listCitizens b d 1 (wholeLimit d)))
      = c_id ` {c \<in> set (citizens d). c_deletedAt c = None} \<and>
    set (listedCitizens (listCitizenTrash b d 1 (wholeLimit d)))
      = c_id ` {c \<in> set (citizens d). c_deletedAt c \<noteq> None} \<and>
    distinct (listedCitizens (listCitizens b d 1 (wholeLimit d))) \<and>
    distinct (listedCitizens (listCitizenTrash b d 1 (wholeLimit d))) \<and>
    set (listedCitizens (listCitizens b d 1 (wholeLimit d))) \<inter>
      set (listedCitizens (listCitizenTrash b d 1 (wholeLimit d))) = {} \<and>
    set (listedCitizens (listCitizens b d 1 (wholeLimit d))) \<union>
      set (listedCitizens (listCitizenTrash b d 1 (wholeLimit d))) = c_id ` set (citizens d) \<and>
    sorted_wrt (\<lambda>x y. cv_createdAt y \<le> cv_createdAt x)
      (pageData (listCitizens b d 1 (wholeLimit d))) \<and>
    (\<exists>cs. pageData (listCitizenTrash b d 1 (wholeLimit d)) = map (normalizeCitizen b) cs \<and>
        set cs = {c \<in> set (citizens d). c_deletedAt c \<noteq> None} \<and>
        sorted_wrt (\<lambda>x y. \<exists>s t. c_deletedAt x = Some s \<and> c_deletedAt y = Some t \<and> t \<le> s) cs) \<and>
    pageData (listCitizens b d page limit)
      = take (nat limit) (drop (nat ((page - 1) * limit))
          (pageData (listCitizens b d 1 (wholeLimit d)))) \<and>
    pageData (listCitizenTrash b d page limit)
      = take (nat limit) (drop (nat ((page - 1) * limit))
          (pageData (listCitizenTrash b d 1 (wholeLimit d)))) \<and>
    set (listedUsers (listUsers b d 1 (wholeLimit d)))
      = u_id ` {u \<in> set (users d). u_deletedAt u = None} \<and>
    set (listedUsers (listUserTrash b d 1 (wholeLimit d)))
      = u_id ` {u \<in> set (users d). u_deletedAt u \<noteq> None} \<and>
    distinct (listedUsers (listUsers b d 1 (wholeLimit d))) \<and>
    distinct (listedUsers (listUserTrash b d 1 (wholeLimit d))) \<and>
    set (listedUsers (listUsers b d 1 (wholeLimit d))) \<inter>
      set (listedUsers (listUserTrash b d 1 (wholeLimit d))) = {} \<and>
    set (listedUsers (listUsers b d 1 (wholeLimit d))) \<union>
      set (listedUsers (listUserTrash b d 1 (wholeLimit d))) = u_id ` set (users d) \<and>
    sorted_wrt (\<lambda>x y. uv_createdAt y \<le> uv_createdAt x)
      (pageData (listUsers b d 1 (wholeLimit d))) \<and>
    (\<exists>us. pageData (listUserTrash b d 1 (wholeLimit d))
             = map (\<lambda>u. normalizeUser b u (populateRole d u)) us \<and>
        set us = {u \<in> set (users d). u_deletedAt u \<noteq> None} \<and>
        sorted_wrt (\<lambda>x y. \<exists>s t. u_deletedAt x = Some s \<and> u_deletedAt y = Some t \<and> t \<le> s) us) \<and>
    pageData (listUsers b d page limit)
      = take (nat limit) (drop (nat ((page - 1) * limit))
          (pageData (listUsers b d 1 (wholeLimit d)))) \<and>
    pageData (listUserTrash b d page limit)
      = take (nat limit) (drop (nat ((page - 1) * limit))
          (pageData (listUserTrash b d 1 (wholeLimit d))))"
  by (intro conjI citizen_listings [OF dc] user_listings [OF du] citizen_order user_order
      listCitizens_page [OF pg lm] listCitizenTrash_page [OF pg lm]
      listUsers_page [OF pg lm] listUserTrash_page [OF pg lm])

text \<open>
  In the sample store with two entities of each kind in the trash, the trash listings put
  the later deletion first, against the order of insertion; the second page of size one of
  the citizen trash holds the earlier deletion.
\<close>

theorem listings_partition_entities_witness:
  "map c_id (filter (\<lambda>c. c_deletedAt c \<noteq> None) (citizens exTrashDb)) = [''c2'', ''c4''] \<and>
   map u_id (filter (\<lambda>u. u_deletedAt u \<noteq> None) (users exTrashDb)) = [''u3'', ''u8''] \<and>
   listedCitizens (listCitizens ''http://localhost:3000'' exTrashDb 1 (wholeLimit exTrashDb))
     = [''c3'', ''c1''] \<and>
   listedCitizens (listCitizenTrash ''http://localhost:3000'' exTrashDb 1 (wholeLimit exTrashDb))
     = [''c4'', ''c2''] \<and>
   listedCitizens (listCitizenTrash ''http://localhost:3000'' exTrashDb 2 1) = [''c2''] \<and>
   listedUsers (listUsers ''http://localhost:3000'' exTrashDb 1 (wholeLimit exTrashDb))
     = [''u4'', ''u2'', ''u1''] \<and>
   listedUsers (listUserTrash ''http://localhost:3000'' exTrashDb 1 (wholeLimit exTrashDb))
     = [''u8'', ''u3''] \<and>
   set (listedCitizens (listCitizens ''http://localhost:3000'' exTrashDb 1 (wholeLimit exTrashDb))) \<inter>
     set (listedCitizens (listCitizenTrash ''http://localhost:3000'' exTrashDb 1 (wholeLimit exTrashDb)))
     = {} \<and>
   pageData (listCitizenTrash ''http://localhost:3000'' exTrashDb 2 1)
     = take (nat 1) (drop (nat ((2 - 1) * 1))
         (pageData (listCitizenTrash ''http://localhost:3000'' exTrashDb 1 (wholeLimit exTrashDb))))"
proof -
  note tr_defs = exTrashDb_def exKhadra_def exEbla_def ex_defs
  have dc: "distinct (map c_id (citizens exTrashDb))"
    and du: "distinct (map u_id (users exTrashDb))"
    by (simp_all add: tr_defs)
  have w: "wholeLimit exTrashDb = 10" by (simp add: wholeLimit_def tr_defs)
  have i1: "map c_id (filter (\<lambda>c. c_deletedAt c \<noteq> None) (citizens exTrashDb)) = [''c2'', ''c4'']"
    by (simp add: tr_defs)
  have i2: "map u_id (filter (\<lambda>u. u_deletedAt u \<noteq> None) (users exTrashDb)) = [''u3'', ''u8'']"
    by (simp add: tr_defs)
  have e1: "listedCitizens (listCitizens ''http://localhost:3000'' exTrashDb 1 (wholeLimit exTrashDb))
              = [''c3'', ''c1'']"
    unfolding w by (simp add: listedCitizens_def pageData_def listCitizens_def skipLimit_def
        normalizeCitizen_def pageCount_def Let_def tr_defs)
  have e2: "listedCitizens (listCitizenTrash ''http://localhost:3000'' exTrashDb 1 (wholeLimit exTrashDb))
              = [''c4'', ''c2'']"
    unfolding w by (simp add: listedCitizens_def pageData_def listCitizenTrash_def skipLimit_def
        normalizeCitizen_def pageCount_def deletedKey_def Let_def tr_defs)
  have e3: "listedCitizens (listCitizenTrash ''http://localhost:3000'' exTrashDb 2 1) = [''c2'']"
    by (simp add: listedCitizens_def pageData_def listCitizenTrash_def skipLimit_def
        normalizeCitizen_def pageCount_def deletedKey_def Let_def tr_defs)
  have e4: "listedUsers (listUsers ''http://localhost:3000'' exTrashDb 1 (wholeLimit exTrashDb))
              = [''u4'', ''u2'', ''u1'']"
    unfolding w by (simp add: listedUsers_def pageData_def listUsers_def skipLimit_def
        normalizeUser_def pageCount_def Let_def tr_defs)
  have e5: "listedUsers (listUserTrash ''http://localhost:3000'' exTrashDb 1 (wholeLimit exTrashDb))
              = [''u8'', ''u3'']"
    unfolding w by (simp add: listedUsers_def pageData_def listUserTrash_def skipLimit_def
        normalizeUser_def pageCount_def deletedKey_def Let_def tr_defs)
  have pg: "(1::int) \<le> 2" "(1::int) \<le> 1" by simp_all
  note t = listings_partition_entities [of exTrashDb 2 1 "''http://localhost:3000''", OF dc du pg]
  have e6: "set (listedCitizens (listCitizens ''http://localhost:3000'' exTrashDb 1 (wholeLimit exTrashDb))) \<inter>
     set (listedCitizens (listCitizenTrash ''http://localhost:3000'' exTrashDb 1 (wholeLimit exTrashDb)))
     = {}"
    using t by (elim conjE) assumption
  have e7: "pageData (listCitizenTrash ''http://localhost:3000'' exTrashDb 2 1)
     = take (nat 1) (drop (nat ((2 - 1) * 1))
         (pageData (listCitizenTrash ''http://localhost:3000'' exTrashDb 1 (wholeLimit exTrashDb))))"
    using t by (elim conjE) assumption
  show ?thesis by (intro conjI i1 i2 e1 e2 e3 e4 e5 e6 e7)
qed

section \<open>Status audit trail\<close>





























section \<open>Menu composition\<close>

lemma firstPass_gen:
  "fold addNode ms mp0 k = Some n \<Longrightarrow>
     (k \<in> m_id ` set ms \<and> n_children n = [] \<and> n_id n = k) \<or> mp0 k = Some n"
proof (induction ms arbitrary: mp0)
  case Nil
  then show ?case by simp
next
  case (Cons a ms)
  from Cons.prems have "fold addNode ms (addNode a mp0) k = Some n"
    by simp
  then have "(k \<in> m_id ` set ms \<and> n_children n = [] \<and> n_id n = k) \<or> addNode a mp0 k = Some n"
    by (rule Cons.IH)
  then show ?case
    by (auto simp: addNode_def makeNode_def split: if_splits)
qed

lemma firstPass_Some:
  "firstPass ms k = Some n \<Longrightarrow> k \<in> m_id ` set ms \<and> n_children n = [] \<and> n_id n = k"
  using firstPass_gen [of ms Map.empty k n] by (simp add: firstPass_def)

lemma firstPass_dom_gen:
  "k \<in> m_id ` set ms \<or> mp0 k \<noteq> None \<Longrightarrow> fold addNode ms mp0 k \<noteq> None"
proof (induction ms arbitrary: mp0)
  case Nil
  then show ?case by simp
next
  case (Cons a ms)
  from Cons.prems have "k \<in> m_id ` set ms \<or> addNode a mp0 k \<noteq> None"
    by (auto simp: addNode_def)
  then have "fold addNode ms (addNode a mp0) k \<noteq> None"
    by (rule Cons.IH)
  then show ?case by simp
qed

lemma firstPass_dom: "k \<in> m_id ` set ms \<Longrightarrow> \<exists>n. firstPass ms k = Some n"
  using firstPass_dom_gen [of k ms Map.empty] by (auto simp: firstPass_def)

lemma secondPass_gen:
  "fold attach xs (mp, rs) =
     (\<lambda>k. map_option (\<lambda>n. n\<lparr>n_children := n_children n @ childrenOf xs k\<rparr>) (mp k),
      rs @ rootsOf xs)"
proof (induction xs arbitrary: mp rs)
  case Nil
  show ?case by (simp add: childrenOf_def rootsOf_def map_option.identity fun_eq_iff option.map_ident)
next
  case (Cons x xs)
  show ?case
  proof (cases "m_parentId x")
    case None
    then have a: "attach x (mp, rs) = (mp, rs @ [m_id x])" by (simp add: attach_def)
    from None show ?thesis
      by (simp add: a Cons.IH childrenOf_def rootsOf_def)
  next
    case (Some p)
    show ?thesis
    proof (cases "mp p")
      case None
      with Some have a: "attach x (mp, rs) = (mp, rs)" by (simp add: attach_def)
      from Some None show ?thesis
        by (auto simp: a Cons.IH childrenOf_def rootsOf_def fun_eq_iff)
    next
      case (Some parent)
      with \<open>m_parentId x = Some p\<close>
      have a: "attach x (mp, rs) = (mp(p \<mapsto> parent\<lparr>n_children := n_children parent @ [m_id x]\<rparr>), rs)"
        by (simp add: attach_def)
      from \<open>m_parentId x = Some p\<close> Some show ?thesis
        by (auto simp: a Cons.IH childrenOf_def rootsOf_def fun_eq_iff)
    qed
  qed
qed

lemma childView_sortChildren: "childView (sortChildren k mp) = childView mp"
  by (auto simp: childView_def sortChildren_def sortByOrder_def fun_eq_iff split: option.splits)

lemma childView_fold: "childView (fold sortChildren ks mp) = childView mp"
  by (induction ks arbitrary: mp) (simp_all add: childView_sortChildren)


lemma distinct_rootsOf: "distinct (map m_id ms) \<Longrightarrow> distinct (rootsOf ms)"
  by (simp add: rootsOf_def distinct_map_filter)

lemma distinct_childrenOf: "distinct (map m_id ms) \<Longrightarrow> distinct (childrenOf ms k)"
  by (simp add: childrenOf_def distinct_map_filter)

lemma find_by_key:
  "distinct (map f xs) \<Longrightarrow> x \<in> set xs \<Longrightarrow> find (\<lambda>y. f y = f x) xs = Some x"
  by (induction xs) (auto simp: rev_image_eqI)

lemma same_key_same_menu:
  "distinct (map m_id ms) \<Longrightarrow> x \<in> set ms \<Longrightarrow> y \<in> set ms \<Longrightarrow> m_id x = m_id y \<Longrightarrow> x = y"
  by (auto simp: distinct_map dest: inj_onD)

lemma in_rootsOf:
  "distinct (map m_id ms) \<Longrightarrow> m \<in> set ms \<Longrightarrow> m_id m \<in> set (rootsOf ms) \<longleftrightarrow> m_parentId m = None"
  by (auto simp: rootsOf_def dest: same_key_same_menu)

lemma in_childrenOf:
  "distinct (map m_id ms) \<Longrightarrow> m \<in> set ms \<Longrightarrow>
   m_id m \<in> set (childrenOf ms k) \<longleftrightarrow> m_parentId m = Some k"
  by (auto simp: childrenOf_def dest: same_key_same_menu)

lemma build_fst: "set (fst (buildMenuTree ms)) = set (rootsOf ms)"
  by (simp add: buildMenuTree_def Let_def secondPass_def secondPass_gen sortByOrder_def)

lemma build_fst_distinct: "distinct (fst (buildMenuTree ms)) = distinct (rootsOf ms)"
  by (simp add: buildMenuTree_def Let_def secondPass_def secondPass_gen sortByOrder_def)

lemma build_childView:
  "childView (snd (buildMenuTree ms)) k =
     map_option (\<lambda>n. (set (childrenOf ms k), distinct (childrenOf ms k))) (firstPass ms k)"
proof -
  have "childView (snd (buildMenuTree ms)) =
        childView (\<lambda>k. map_option (\<lambda>n. n\<lparr>n_children := n_children n @ childrenOf ms k\<rparr>)
                         (firstPass ms k))"
    by (simp add: buildMenuTree_def Let_def secondPass_def secondPass_gen childView_fold)
  then show ?thesis
    by (cases "firstPass ms k") (auto simp: childView_def dest: firstPass_Some)
qed

lemma build_snd_Some:
  assumes "snd (buildMenuTree ms) k = Some n"
  shows "k \<in> m_id ` set ms \<and> set (n_children n) = set (childrenOf ms k) \<and>
         distinct (n_children n) = distinct (childrenOf ms k)"
proof -
  from assms have cv: "childView (snd (buildMenuTree ms)) k
      = Some (set (n_children n), distinct (n_children n))"
    by (simp add: childView_def)
  then obtain n0 where f: "firstPass ms k = Some n0"
    by (cases "firstPass ms k") (auto simp: build_childView)
  with cv have "set (n_children n) = set (childrenOf ms k)"
    "distinct (n_children n) = distinct (childrenOf ms k)"
    by (auto simp: build_childView)
  with firstPass_Some [OF f] show ?thesis by simp
qed

lemma build_snd_dom:
  assumes "k \<in> m_id ` set ms"
  shows "\<exists>n. snd (buildMenuTree ms) k = Some n"
proof -
  from firstPass_dom [OF assms] obtain n0 where "firstPass ms k = Some n0" by blast
  then have "childView (snd (buildMenuTree ms)) k \<noteq> None"
    by (simp add: build_childView)
  then show ?thesis by (auto simp: childView_def)
qed

lemma inForest_build_cases:
  "inForest (buildMenuTree ms) k \<Longrightarrow>
     k \<in> set (rootsOf ms) \<or> (\<exists>p. p \<in> m_id ` set ms \<and> k \<in> set (childrenOf ms p))"
  by (erule inForest.cases) (auto simp: ListMem_iff build_fst dest!: build_snd_Some)

lemma anchored_member: "anchored ms m \<Longrightarrow> m \<in> set ms"
  by (erule anchored.cases) auto

lemma inForest_imp_anchored:
  assumes d: "distinct (map m_id ms)"
  shows "inForest (buildMenuTree ms) k \<Longrightarrow> \<exists>m \<in> set ms. m_id m = k \<and> anchored ms m"
proof (induction rule: inForest.induct)
  case (root k)
  then have "k \<in> set (rootsOf ms)" by (simp add: ListMem_iff build_fst)
  then show ?case by (auto simp: rootsOf_def intro: anchored.top)
next
  case (child p n k)
  from child.IH obtain pm where pm: "pm \<in> set ms" "m_id pm = p" "anchored ms pm" by blast
  from child.hyps have "k \<in> set (childrenOf ms p)"
    by (auto simp: ListMem_iff dest!: build_snd_Some)
  then obtain m where m: "m \<in> set ms" "m_id m = k" "m_parentId m = Some p"
    by (auto simp: childrenOf_def)
  from d pm have "find (\<lambda>x. m_id x = p) ms = Some pm"
    using find_by_key [of m_id ms pm] by simp
  with m pm have "anchored ms m" by (auto intro: anchored.below)
  with m show ?case by blast
qed

lemma anchored_imp_inForest:
  "anchored ms m \<Longrightarrow> inForest (buildMenuTree ms) (m_id m)"
proof (induction rule: anchored.induct)
  case (top m)
  then have "m_id m \<in> set (fst (buildMenuTree ms))"
    by (auto simp: build_fst rootsOf_def)
  then show ?case by (auto simp: ListMem_iff intro: inForest.root)
next
  case (below m p pm)
  from below.hyps have pm: "pm \<in> set ms" "m_id pm = p" by (auto dest: find_SomeD)
  then obtain n where n: "snd (buildMenuTree ms) p = Some n"
    using build_snd_dom [of p ms] by auto
  from below.hyps have "m_id m \<in> set (childrenOf ms p)"
    by (auto simp: childrenOf_def)
  with build_snd_Some [OF n] have "ListMem (m_id m) (n_children n)" by (simp add: ListMem_iff)
  with below.IH pm n show ?case by (auto intro: inForest.child)
qed

lemma inForest_iff_anchored:
  assumes "distinct (map m_id ms)" and "m \<in> set ms"
  shows "inForest (buildMenuTree ms) (m_id m) \<longleftrightarrow> anchored ms m"
proof
  assume "inForest (buildMenuTree ms) (m_id m)"
  from inForest_imp_anchored [OF assms(1) this] obtain m' where
    "m' \<in> set ms" "m_id m' = m_id m" "anchored ms m'" by blast
  moreover from this assms have "m' = m" by (auto intro: same_key_same_menu)
  ultimately show "anchored ms m" by simp
next
  assume "anchored ms m"
  then show "inForest (buildMenuTree ms) (m_id m)" by (rule anchored_imp_inForest)
qed

lemma orphan_not_anchored:
  assumes "m_parentId m = Some p" and "p \<notin> m_id ` set ms"
  shows "\<not> anchored ms m"
proof
  assume "anchored ms m"
  then show False
  proof (cases rule: anchored.cases)
    case top
    with assms show False by simp
  next
    case (below q pm)
    then have "pm \<in> set ms" "m_id pm = q" by (auto dest: find_SomeD)
    with below assms show False by auto
  qed
qed

lemma root_iff_parentless:
  assumes d: "distinct (map m_id ms)" and m: "m \<in> set ms"
  shows "m_parentId m = None \<longleftrightarrow> m_id m \<in> set (fst (buildMenuTree ms))"
  unfolding build_fst using in_rootsOf [OF d m] by (rule sym)

lemma orphan_absent:
  assumes d: "distinct (map m_id ms)" and m: "m \<in> set ms"
    and o: "m_parentId m = Some p \<and> p \<notin> m_id ` set ms"
  shows "m_id m \<notin> set (fst (buildMenuTree ms)) \<and> \<not> inForest (buildMenuTree ms) (m_id m)"
proof
  from o have "m_parentId m \<noteq> None" by simp
  then show "m_id m \<notin> set (fst (buildMenuTree ms))"
    unfolding root_iff_parentless [OF d m, symmetric] .
  from o have "\<not> anchored ms m" using orphan_not_anchored [of m p ms] by simp
  then show "\<not> inForest (buildMenuTree ms) (m_id m)"
    unfolding inForest_iff_anchored [OF d m] .
qed

lemma child_iff_parent:
  assumes d: "distinct (map m_id ms)" and m: "m \<in> set ms"
    and s: "snd (buildMenuTree ms) k = Some n"
  shows "distinct (n_children n) \<and> (m_id m \<in> set (n_children n) \<longleftrightarrow> m_parentId m = Some k)"
proof
  from build_snd_Some [OF s] have e: "set (n_children n) = set (childrenOf ms k)"
    and dd: "distinct (n_children n) = distinct (childrenOf ms k)" by simp_all
  show "distinct (n_children n)" unfolding dd using d by (rule distinct_childrenOf)
  show "m_id m \<in> set (n_children n) \<longleftrightarrow> m_parentId m = Some k"
    unfolding e using d m by (rule in_childrenOf)
qed

text \<open>
Claim C1, as the code has it.  Let the fetched menus have unique ids and let \<open>m\<close> be one
  of them.  The node of \<open>m\<close> occurs in the composed forest exactly when \<open>m\<close> is anchored in
  the fetched list, that is, when its chain of parent references stays inside the list and
  ends at a menu without parent.  It is a root exactly when \<open>m\<close> has no parent reference.  A
  menu whose parent reference points to a menu absent from the fetched list is neither a
  root nor anywhere else in the forest: \<^verbatim>\<open>buildMenuTree\<close> pushes it nowhere.  No node is
  held twice: the roots are free of duplicates, so is every \<^verbatim>\<open>children\<close> array, and the node
  of \<open>m\<close> is in the array of a node \<open>k\<close> exactly when \<open>k\<close> is the parent that \<open>m\<close> names.
\<close>

theorem menu_forest_holds_anchored_menus:
  assumes d: "distinct (map m_id ms)" and m: "m \<in> set ms"
  shows "(inForest (buildMenuTree ms) (m_id m) \<longleftrightarrow> anchored ms m) \<and>
         (m_parentId m = None \<longleftrightarrow> m_id m \<in> set (fst (buildMenuTree ms))) \<and>
         (\<forall>p. m_parentId m = Some p \<and> p \<notin> m_id ` set ms \<longrightarrow>
              m_id m \<notin> set (fst (buildMenuTree ms)) \<and>
              \<not> inForest (buildMenuTree ms) (m_id m)) \<and>
         distinct (fst (buildMenuTree ms)) \<and>
         (\<forall>k n. snd (buildMenuTree ms) k = Some n \<longrightarrow>
              distinct (n_children n) \<and>
              (m_id m \<in> set (n_children n) \<longleftrightarrow> m_parentId m = Some k))"
proof (intro conjI allI impI)
  show "inForest (buildMenuTree ms) (m_id m) \<longleftrightarrow> anchored ms m"
    using d m by (rule inForest_iff_anchored)
  show "m_parentId m = None \<longleftrightarrow> m_id m \<in> set (fst (buildMenuTree ms))"
    using d m by (rule root_iff_parentless)
  show "distinct (fst (buildMenuTree ms))"
    unfolding build_fst_distinct using d by (rule distinct_rootsOf)
next
  fix p assume o: "m_parentId m = Some p \<and> p \<notin> m_id ` set ms"
  from orphan_absent [OF d m o]
  show "m_id m \<notin> set (fst (buildMenuTree ms))" "\<not> inForest (buildMenuTree ms) (m_id m)"
    by simp_all
next
  fix k n assume s: "snd (buildMenuTree ms) k = Some n"
  from child_iff_parent [OF d m s]
  show "distinct (n_children n)" "m_id m \<in> set (n_children n) \<longleftrightarrow> m_parentId m = Some k"
    by simp_all
qed


lemmas build_defs =
  buildMenuTree_def secondPass_def firstPass_def addNode_def makeNode_def attach_def
  sortByOrder_def orderOf_def sortChildren_def Let_def

lemma ex_fetch_create_only:
  "fetchMenus exDb [''CREATE_CITIZEN''] = [exAddCitizen, exNotices]"
  by (simp add: fetchMenus_def ex_defs)

lemma ex_menus_distinct: "distinct (map m_id (menus exDb))"
  by (simp add: ex_defs)

text \<open>
With all four menus of the sample store fetched, \<open>Add Citizen\<close> is anchored through
  \<open>Citizens\<close> and occurs in the forest as its child, not as a root.
\<close>

theorem menu_forest_holds_anchored_menus_witness:
  "anchored (menus exDb) exAddCitizen \<and>
   inForest (buildMenuTree (menus exDb)) ''m3'' \<and>
   ''m3'' \<notin> set (fst (buildMenuTree (menus exDb))) \<and>
   fst (buildMenuTree (menus exDb)) = [''m1'', ''m2'', ''m4''] \<and>
   readForest 2 (buildMenuTree (menus exDb)) =
     Some [MenuItem ''m1'' ''Dashboard'' (Some ''/dashboard'') (Some ''home'') 1 [],
           MenuItem ''m2'' ''Citizens'' (Some ''/citizens'') (Some ''users'') 2
             [MenuItem ''m3'' ''Add Citizen'' (Some ''/citizens/create'') (Some ''user-plus'') 3 []],
           MenuItem ''m4'' ''Notices'' (Some ''/notices'') None 4 []]"
proof -
  have mem: "exAddCitizen \<in> set (menus exDb)" "exCitizens \<in> set (menus exDb)"
    by (simp_all add: exDb_def)
  have top: "anchored (menus exDb) exCitizens"
    using mem(2) by (rule anchored.top) (simp add: exCitizens_def)
  have f: "find (\<lambda>x. m_id x = ''m2'') (menus exDb) = Some exCitizens"
    by (simp add: ex_defs)
  have p: "m_parentId exAddCitizen = Some ''m2''" "m_id exAddCitizen = ''m3''"
    by (simp_all add: exAddCitizen_def)
  have a: "anchored (menus exDb) exAddCitizen"
    using mem(1) p(1) f top by (rule anchored.below)
  note t = menu_forest_holds_anchored_menus [OF ex_menus_distinct mem(1)]
  from t a p have i: "inForest (buildMenuTree (menus exDb)) ''m3''" by simp
  from t p have r: "''m3'' \<notin> set (fst (buildMenuTree (menus exDb)))" by simp
  have e: "fst (buildMenuTree (menus exDb)) = [''m1'', ''m2'', ''m4'']"
    by (simp add: build_defs ex_defs)
  have g: "readForest 2 (buildMenuTree (menus exDb)) =
     Some [MenuItem ''m1'' ''Dashboard'' (Some ''/dashboard'') (Some ''home'') 1 [],
           MenuItem ''m2'' ''Citizens'' (Some ''/citizens'') (Some ''users'') 2
             [MenuItem ''m3'' ''Add Citizen'' (Some ''/citizens/create'') (Some ''user-plus'') 3 []],
           MenuItem ''m4'' ''Notices'' (Some ''/notices'') None 4 []]"
    by (simp add: readForest_def build_defs ex_defs eval_nat_numeral)
  from a i r e g show ?thesis by (intro conjI)
qed

text \<open>
Claim C1 as stated fails.  For the granted set \<open>{CREATE_CITIZEN}\<close> the sample store
  yields the fetched menus \<open>Add Citizen\<close> and \<open>Notices\<close>.  The parent of \<open>Add Citizen\<close>
  is \<open>Citizens\<close>, which did not pass the filter; the composed forest consists of the root
  \<open>Notices\<close> alone, and \<open>Add Citizen\<close> is not in it.
\<close>

theorem orphan_menu_counterexample:
  "fetchMenus exDb [''CREATE_CITIZEN''] = [exAddCitizen, exNotices] \<and>
   m_parentId exAddCitizen = Some ''m2'' \<and>
   ''m2'' \<notin> m_id ` set (fetchMenus exDb [''CREATE_CITIZEN'']) \<and>
   fst (buildMenuTree (fetchMenus exDb [''CREATE_CITIZEN''])) = [''m4''] \<and>
   readForest 2 (buildMenuTree (fetchMenus exDb [''CREATE_CITIZEN''])) =
     Some [MenuItem ''m4'' ''Notices'' (Some ''/notices'') None 4 []] \<and>
   \<not> inForest (buildMenuTree (fetchMenus exDb [''CREATE_CITIZEN''])) (m_id exAddCitizen)"
proof -
  have p: "m_parentId exAddCitizen = Some ''m2''"
    by (simp add: exAddCitizen_def)
  have n: "''m2'' \<notin> m_id ` set [exAddCitizen, exNotices]"
    by (simp add: ex_defs)
  have e: "fst (buildMenuTree [exAddCitizen, exNotices]) = [''m4'']"
    by (simp add: build_defs ex_defs)
  have g: "readForest 2 (buildMenuTree [exAddCitizen, exNotices]) =
     Some [MenuItem ''m4'' ''Notices'' (Some ''/notices'') None 4 []]"
    by (simp add: readForest_def build_defs ex_defs eval_nat_numeral)
  have i: "\<not> inForest (buildMenuTree [exAddCitizen, exNotices]) (m_id exAddCitizen)"
  proof
    assume "inForest (buildMenuTree [exAddCitizen, exNotices]) (m_id exAddCitizen)"
    from inForest_build_cases [OF this]
    have "m_id exAddCitizen \<in> set (rootsOf [exAddCitizen, exNotices]) \<or>
          m_id exAddCitizen \<in> set (childrenOf [exAddCitizen, exNotices] (m_id exAddCitizen)) \<or>
          m_id exAddCitizen \<in> set (childrenOf [exAddCitizen, exNotices] (m_id exNotices))"
      by auto
    then show False
      by (simp add: rootsOf_def childrenOf_def ex_defs)
  qed
  from p n e g i show ?thesis unfolding ex_fetch_create_only by simp
qed

lemma fetch_set:
  "set (fetchMenus d granted) =
     {m \<in> set (menus d). m_permissionCode m = None \<or>
        (\<exists>c. m_permissionCode m = Some c \<and> c \<in> set granted)}"
  by (auto simp: fetchMenus_def split: option.splits)

lemma fetch_distinct:
  assumes "distinct (map m_id (menus d))"
  shows "distinct (map m_id (fetchMenus d granted))"
proof -
  have "distinct (map m_id (filter (\<lambda>m. case m_permissionCode m of None \<Rightarrow> True
          | Some c \<Rightarrow> c \<in> set granted) (menus d)))"
    using assms by (rule distinct_map_filter)
  then show ?thesis by (simp add: fetchMenus_def distinct_map)
qed

lemma open_root_listed:
  assumes "m \<in> set (menus d)" and "m_permissionCode m = None" and "m_parentId m = None"
  shows "m_id m \<in> set (fst (buildMenuTree (fetchMenus d granted)))"
proof -
  from assms have "m \<in> set (fetchMenus d granted)" by (simp add: fetch_set)
  with assms(3) have "m_id m \<in> set (rootsOf (fetchMenus d granted))"
    by (auto simp: rootsOf_def)
  then show ?thesis by (simp add: build_fst)
qed

lemma getUserMenus_empty:
  "getUserPermissions storeOk d userId = [] \<Longrightarrow>
   getUserMenus storeOk menusOk d userId = ([], Map.empty)"
  by (simp add: getUserMenus_def)

lemma getUserMenus_granted:
  "getUserPermissions storeOk d userId \<noteq> [] \<Longrightarrow> menusOk \<Longrightarrow>
   getUserMenus storeOk menusOk d userId
     = buildMenuTree (fetchMenus d (getUserPermissions storeOk d userId))"
  by (simp add: getUserMenus_def)

text \<open>
Claim C9, as the code has it.  When the principal's granted set is empty,
  \<^verbatim>\<open>getUserMenus\<close> returns the empty forest without fetching any menu.  When it is not
  empty (and the menu query is answered), the fetched menus are exactly the menus whose
  \<open>permissionCode\<close> is null or a granted code, and the result is the forest built from
  them: a menu with a null \<open>permissionCode\<close> and no parent reference is one of its roots,
  and, the ids being unique, a fetched menu occurs in the forest exactly when it is anchored
  in the fetched list.
\<close>

theorem menus_for_granted_codes:
  "(getUserPermissions storeOk d userId = [] \<longrightarrow>
      getUserMenus storeOk menusOk d userId = ([], Map.empty)) \<and>
   (getUserPermissions storeOk d userId \<noteq> [] \<and> menusOk \<longrightarrow>
      getUserMenus storeOk menusOk d userId
        = buildMenuTree (fetchMenus d (getUserPermissions storeOk d userId)) \<and>
      set (fetchMenus d (getUserPermissions storeOk d userId)) =
        {m \<in> set (menus d). m_permissionCode m = None \<or>
           (\<exists>c. m_permissionCode m = Some c \<and> c \<in> set (getUserPermissions storeOk d userId))} \<and>
      (m \<in> set (menus d) \<and> m_permissionCode m = None \<and> m_parentId m = None \<longrightarrow>
         m_id m \<in> set (fst (getUserMenus storeOk menusOk d userId))) \<and>
      (distinct (map m_id (menus d)) \<and>
       m \<in> set (fetchMenus d (getUserPermissions storeOk d userId)) \<longrightarrow>
         (inForest (getUserMenus storeOk menusOk d userId) (m_id m) \<longleftrightarrow>
          anchored (fetchMenus d (getUserPermissions storeOk d userId)) m)))"
proof (intro conjI impI)
  assume "getUserPermissions storeOk d userId = []"
  then show "getUserMenus storeOk menusOk d userId = ([], Map.empty)"
    by (rule getUserMenus_empty)
next
  assume g: "getUserPermissions storeOk d userId \<noteq> [] \<and> menusOk"
  then show e: "getUserMenus storeOk menusOk d userId
        = buildMenuTree (fetchMenus d (getUserPermissions storeOk d userId))"
    by (simp add: getUserMenus_granted)
  show "set (fetchMenus d (getUserPermissions storeOk d userId)) =
        {m \<in> set (menus d). m_permissionCode m = None \<or>
           (\<exists>c. m_permissionCode m = Some c \<and> c \<in> set (getUserPermissions storeOk d userId))}"
    by (rule fetch_set)
  { assume "m \<in> set (menus d) \<and> m_permissionCode m = None \<and> m_parentId m = None"
    then show "m_id m \<in> set (fst (getUserMenus storeOk menusOk d userId))"
      unfolding e by (auto intro: open_root_listed) }
  { assume "distinct (map m_id (menus d)) \<and>
       m \<in> set (fetchMenus d (getUserPermissions storeOk d userId))"
    then have "distinct (map m_id (fetchMenus d (getUserPermissions storeOk d userId)))"
      and "m \<in> set (fetchMenus d (getUserPermissions storeOk d userId))"
      by (auto intro: fetch_distinct)
    then show "inForest (getUserMenus storeOk menusOk d userId) (m_id m) \<longleftrightarrow>
          anchored (fetchMenus d (getUserPermissions storeOk d userId)) m"
      unfolding e by (rule inForest_iff_anchored) }
qed

lemma ex_admin_codes:
  "getUserPermissions True exDb ''u1''
     = [''MANAGE_USERS'', ''VIEW_CITIZEN'', ''CREATE_CITIZEN'', ''VIEW_DASHBOARD'']"
  by (simp add: getUserPermissions_def populateRole_def populatePermissions_def
      List.map_filter_simps findUserById_def findRoleById_def findPermissionById_def ex_defs)

text \<open>
In the sample store the administrator \<open>u1\<close> is granted four codes and gets the menu
  \<open>Notices\<close>, which needs none, as a root; the unknown principal \<open>u7\<close> gets the empty forest.
\<close>

theorem menus_for_granted_codes_witness:
  "exNotices \<in> set (menus exDb) \<and> m_permissionCode exNotices = None \<and>
   ''m4'' \<in> set (fst (getUserMenus True True exDb ''u1'')) \<and>
   getUserMenus True True exDb ''u7'' = ([], Map.empty)"
proof -
  have n: "exNotices \<in> set (menus exDb)" "m_permissionCode exNotices = None"
    "m_parentId exNotices = None" "m_id exNotices = ''m4''"
    by (simp_all add: ex_defs)
  have g: "getUserPermissions True exDb ''u1'' \<noteq> []"
    by (simp add: ex_admin_codes)
  have u7: "getUserPermissions True exDb ''u7'' = []"
    by (simp add: getUserPermissions_def findUserById_def ex_defs)
  from menus_for_granted_codes [of True exDb "''u1''" True exNotices] n(1,2,3) g
  have "m_id exNotices \<in> set (fst (getUserMenus True True exDb ''u1''))" by blast
  then have a: "''m4'' \<in> set (fst (getUserMenus True True exDb ''u1''))" by (simp only: n(4))
  from menus_for_granted_codes [of True exDb "''u7''" True exNotices] u7
  have b: "getUserMenus True True exDb ''u7'' = ([], Map.empty)" by simp
  from n a b show ?thesis by (intro conjI)
qed

text \<open>
Claim C9 as stated fails at the empty granted set.  In the sample store with no permission
  attached to any role, the administrator \<open>u1\<close> is granted nothing; the menu \<open>Notices\<close> has
  a null \<open>permissionCode\<close> and no parent, and the composed forest is empty all the same.
\<close>

theorem open_menu_hidden_counterexample:
  "exNotices \<in> set (menus exBareDb) \<and> m_permissionCode exNotices = None \<and>
   m_parentId exNotices = None \<and>
   findUserById exBareDb ''u1'' = Some exAmina \<and>
   findRoleById exBareDb ''r1'' = Some (exAdmin\<lparr>r_permissions := []\<rparr>) \<and>
   getUserPermissions True exBareDb ''u1'' = [] \<and>
   getUserMenus True True exBareDb ''u1'' = ([], Map.empty) \<and>
   readForest 1 (getUserMenus True True exBareDb ''u1'') = Some []"
proof -
  have p: "getUserPermissions True exBareDb ''u1'' = []"
    by (simp add: getUserPermissions_def populateRole_def populatePermissions_def
        List.map_filter_simps findUserById_def findRoleById_def exBareDb_def ex_defs)
  then have m: "getUserMenus True True exBareDb ''u1'' = ([], Map.empty)"
    by (rule getUserMenus_empty)
  have r: "readForest 1 (getUserMenus True True exBareDb ''u1'') = Some []"
    unfolding m by (simp add: readForest_def)
  have n: "exNotices \<in> set (menus exBareDb)" "m_permissionCode exNotices = None"
    "m_parentId exNotices = None" "findUserById exBareDb ''u1'' = Some exAmina"
    "findRoleById exBareDb ''r1'' = Some (exAdmin\<lparr>r_permissions := []\<rparr>)"
    by (simp_all add: findUserById_def findRoleById_def exBareDb_def ex_defs)
  from n p m r show ?thesis by (intro conjI)
qed

end
